theory Spec2Isabelle
  imports Complex_Main "HOL-Library.Log_Nat"
begin

unbundle bit_operations_syntax

section \<open>Python values and exceptions\<close>

text \<open>
  The driver is Python. An exception is a value of \<open>py_error\<close>; an operation on an object
  returns a pair of its outcome (\<open>Inl\<close> the exception raised, \<open>Inr\<close> the value returned) and
  the object as the operation left it, since an exception does not undo the assignments
  made before it. A number is tagged with its Python type, because \<open>int(...)\<close> and
  arithmetic with a float change it. \<open>PyFloat r\<close> is a finite float of value \<open>r\<close> (the
  two zeros are not told apart: they compare equal and no operation below separates
  them), \<open>PyInf True\<close> and \<open>PyInf False\<close> are \<open>inf\<close> and \<open>-inf\<close>, and \<open>PyNaN\<close> is \<open>nan\<close>.
  The arithmetic of the calibration, whose results \<open>int(...)\<close> converts, rounds to IEEE
  754 binary64 as Python does. The two quotients that are only stored or returned
  (\<open>temp / 100.0\<close> and \<open>len(...) / PACKET_PERIOD\<close>) and the clock readings are kept as
  exact reals.
\<close>

datatype py_error = IndexError | KeyError | ValueError | AttributeError | OverflowError
  | StructError | BleakError

datatype pynum = PyInt int | PyFloat real | PyInf bool | PyNaN

text \<open>The value of an int or of a finite float.\<close>

fun val :: "pynum \<Rightarrow> real" where
  "val (PyInt i) = of_int i"
| "val (PyFloat r) = r"

fun is_float :: "pynum \<Rightarrow> bool" where
  "is_float (PyInt i) = False"
| "is_float x = True"

subsection \<open>Rounding to binary64\<close>

text \<open>
  Every float operation returns the exact result rounded to the nearest double, ties to
  the even significand. \<open>binexp x\<close> is the binary exponent of a positive \<open>x\<close>
  (\<open>2 ^ e \<le> x < 2 ^ (e + 1)\<close>), \<open>quantum x\<close> the spacing of the doubles around \<open>x\<close> (53
  significant bits, and \<open>2 ^ -1074\<close> in the subnormal range), and a result of magnitude
  \<open>2 ^ 1024\<close> or more overflows to an infinity.
\<close>

definition round_even :: "real \<Rightarrow> int" where
  "round_even x =
     (let f = \<lfloor>x\<rfloor>; d = x - of_int f
      in if d < 1 / 2 then f
         else if 1 / 2 < d then f + 1
         else if even f then f else f + 1)"

definition binexp :: "real \<Rightarrow> int" where
  "binexp x = (if 1 \<le> x then bitlen \<lfloor>x\<rfloor> - 1 else - bitlen (\<lceil>1 / x\<rceil> - 1))"

definition pow2 :: "int \<Rightarrow> real" where
  "pow2 e = (if 0 \<le> e then 2 ^ nat e else 1 / 2 ^ nat (- e))"

definition quantum :: "real \<Rightarrow> real" where
  "quantum x = pow2 (max (binexp \<bar>x\<bar>) (- 1022) - 52)"

definition to_double :: "real \<Rightarrow> pynum" where
  "to_double x =
     (if x = 0 then PyFloat 0
      else
        (let q = quantum x; y = of_int (round_even (x / q)) * q
         in if 2 ^ 1024 \<le> \<bar>y\<bar> then PyInf (0 < x) else PyFloat y))"

subsection \<open>Arithmetic\<close>

text \<open>
  \<open>x * y\<close> and \<open>x - y\<close> on two floats. The last equation of each is the case of a
  \<open>nan\<close> operand; the functions are applied to floats only.
\<close>

fun fmul :: "pynum \<Rightarrow> pynum \<Rightarrow> pynum" where
  "fmul (PyFloat x) (PyFloat y) = to_double (x * y)"
| "fmul (PyFloat x) (PyInf b) = (if x = 0 then PyNaN else PyInf (b = (0 < x)))"
| "fmul (PyInf a) (PyFloat y) = (if y = 0 then PyNaN else PyInf (a = (0 < y)))"
| "fmul (PyInf a) (PyInf b) = PyInf (a = b)"
| "fmul x y = PyNaN"

fun fsub :: "pynum \<Rightarrow> pynum \<Rightarrow> pynum" where
  "fsub (PyFloat x) (PyFloat y) = to_double (x - y)"
| "fsub (PyFloat x) (PyInf b) = PyInf (\<not> b)"
| "fsub (PyInf a) (PyFloat y) = PyInf a"
| "fsub (PyInf a) (PyInf b) = (if a = b then PyNaN else PyInf a)"
| "fsub x y = PyNaN"

text \<open>
  The conversion of an operand to float in mixed arithmetic: an int too large for a
  double raises OverflowError.
\<close>

fun as_float :: "pynum \<Rightarrow> py_error + pynum" where
  "as_float (PyInt i) =
     (case to_double (of_int i) of PyFloat r \<Rightarrow> Inr (PyFloat r) | _ \<Rightarrow> Inl OverflowError)"
| "as_float x = Inr x"

text \<open>\<open>a * b\<close> and \<open>a - b\<close>: exact on two ints, in floating point otherwise.\<close>

fun py_mul :: "pynum \<Rightarrow> pynum \<Rightarrow> py_error + pynum" where
  "py_mul (PyInt a) (PyInt b) = Inr (PyInt (a * b))"
| "py_mul a b =
     (case as_float a of
        Inl e \<Rightarrow> Inl e
      | Inr x \<Rightarrow> (case as_float b of Inl e \<Rightarrow> Inl e | Inr y \<Rightarrow> Inr (fmul x y)))"

fun py_sub :: "pynum \<Rightarrow> pynum \<Rightarrow> py_error + pynum" where
  "py_sub (PyInt a) (PyInt b) = Inr (PyInt (a - b))"
| "py_sub a b =
     (case as_float a of
        Inl e \<Rightarrow> Inl e
      | Inr x \<Rightarrow> (case as_float b of Inl e \<Rightarrow> Inl e | Inr y \<Rightarrow> Inr (fsub x y)))"

text \<open>
  \<open>int(x)\<close> drops the fractional part of a finite float (truncation toward zero) and
  raises OverflowError on an infinity, ValueError on \<open>nan\<close>.
\<close>

definition trunc :: "real \<Rightarrow> int" where
  "trunc r = (if 0 \<le> r then \<lfloor>r\<rfloor> else - \<lfloor>- r\<rfloor>)"

fun py_int :: "pynum \<Rightarrow> py_error + pynum" where
  "py_int (PyInt i) = Inr (PyInt i)"
| "py_int (PyFloat r) = Inr (PyInt (trunc r))"
| "py_int (PyInf b) = Inl OverflowError"
| "py_int PyNaN = Inl ValueError"

text \<open>
  A value of a calibration mapping is the text the configuration file held: a decimal
  numeral (\<open>Numeric r\<close>, of exact value \<open>r\<close>), \<open>inf\<close> or \<open>-inf\<close>, \<open>nan\<close>, or something that is
  no number. \<open>float(v)\<close> gives the nearest double of a numeral and raises ValueError on
  what is no number.
\<close>

datatype cfgval = Numeric real | Infinity bool | NotANumber | NonNumeric

fun py_float :: "cfgval \<Rightarrow> pynum option" where
  "py_float (Numeric r) = Some (to_double r)"
| "py_float (Infinity b) = Some (PyInf b)"
| "py_float NotANumber = Some PyNaN"
| "py_float NonNumeric = None"

text \<open>The first exception of a sequence of results, or all their values.\<close>

fun all_or_error :: "(py_error + 'a) list \<Rightarrow> py_error + 'a list" where
  "all_or_error [] = Inr []"
| "all_or_error (Inl e # rs) = Inl e"
| "all_or_error (Inr v # rs) =
     (case all_or_error rs of Inl e \<Rightarrow> Inl e | Inr vs \<Rightarrow> Inr (v # vs))"

type_synonym calib = "string \<rightharpoonup> cfgval"

section \<open>extana.py: class ExtAnaData\<close>

record ExtAnaData =
  ch1 :: int
  ch2 :: int
  temp :: pynum
  seq :: int
  timestamp :: real

definition ExtAnaData_init :: ExtAnaData where
  "ExtAnaData_init = \<lparr>ch1 = 0, ch2 = 0, temp = PyInt 0, seq = 0, timestamp = 0\<rparr>"

definition ExtAnaData_update :: "int \<Rightarrow> int \<Rightarrow> int \<Rightarrow> int \<Rightarrow> real \<Rightarrow> ExtAnaData \<Rightarrow> ExtAnaData" where
  "ExtAnaData_update c1 c2 t sq ts e =
     e\<lparr>ch1 := c1, ch2 := c2, temp := PyFloat (real_of_int t / 100), seq := sq, timestamp := ts\<rparr>"

section \<open>imu.py: class IMUData\<close>

definition PACKET_PERIOD :: real where
  "PACKET_PERIOD = 3"

text \<open>
  An attribute that \<open>reset\<close> does not assign (\<open>gyro_offsets\<close>, \<open>mag_scale\<close>, \<open>mag_offsets\<close>,
  \<open>has_acc_calib\<close>, \<open>timestamp\<close>) does not exist until the method that assigns it has run:
  it is an option, \<open>None\<close> while unset, and reading it unset raises AttributeError.
  \<open>has_acc_calib_u\<close> is the attribute \<open>_has_acc_calib\<close>.
\<close>

record IMUData =
  calibration_data :: "calib option"
  index :: int
  acc :: "pynum list"
  mag :: "pynum list"
  gyro :: "pynum list"
  acc_scale :: "pynum list"
  acc_offsets :: "pynum list"
  gyro_offsets :: "pynum list option"
  mag_scale :: "pynum list option"
  mag_offsets :: "pynum list option"
  seq :: int
  timestamp :: "real option"
  use_calibration :: bool
  has_acc_calib_u :: bool
  has_acc_calib :: "bool option"
  has_mag_calib :: bool
  has_gyro_calib :: bool
  packet_metadata :: "(real \<times> int) list"
  packet_start :: real
  packets_lost :: int

definition axes :: "string list" where
  "axes = [''x'', ''y'', ''z'']"

text \<open>
  \<open>tuple(map(float, [calibration_data[f'{sensor}{x}_{field}'] for x in axes]))\<close>: the list
  of the three entries is built first (KeyError at a missing key), then each is converted.
\<close>

definition coefficients :: "calib \<Rightarrow> string \<Rightarrow> string \<Rightarrow> py_error + pynum list" where
  "coefficients cd sensor field =
     (case those (map (\<lambda>x. cd (sensor @ x @ ''_'' @ field)) axes) of
        None \<Rightarrow> Inl KeyError
      | Some vs \<Rightarrow>
          (case those (map py_float vs) of
             None \<Rightarrow> Inl ValueError
           | Some fs \<Rightarrow> Inr fs))"

text \<open>The three \<open>if ... in calibration_data\<close> blocks of \<open>load_calibration\<close>, in order.\<close>

definition load_acc :: "calib \<Rightarrow> IMUData \<Rightarrow> (py_error + unit) \<times> IMUData" where
  "load_acc cd s =
     (if cd ''accx_offset'' \<noteq> None then
        (case coefficients cd ''acc'' ''scale'' of
           Inl e \<Rightarrow> (Inl e, s)
         | Inr sc \<Rightarrow>
             (case coefficients cd ''acc'' ''offset'' of
                Inl e \<Rightarrow> (Inl e, s\<lparr>acc_scale := sc\<rparr>)
              | Inr off \<Rightarrow>
                  (Inr (), s\<lparr>acc_scale := sc, acc_offsets := off, has_acc_calib := Some True\<rparr>)))
      else
        (Inr (), s\<lparr>acc_scale := [PyFloat 1, PyFloat 1, PyFloat 1],
                    acc_offsets := [PyInt 0, PyInt 0, PyInt 0]\<rparr>))"

definition load_gyro :: "calib \<Rightarrow> IMUData \<Rightarrow> (py_error + unit) \<times> IMUData" where
  "load_gyro cd s =
     (if cd ''gyrox_offset'' \<noteq> None then
        (case coefficients cd ''gyro'' ''offset'' of
           Inl e \<Rightarrow> (Inl e, s)
         | Inr off \<Rightarrow> (Inr (), s\<lparr>gyro_offsets := Some off, has_gyro_calib := True\<rparr>))
      else
        (Inr (), s\<lparr>gyro_offsets := Some [PyInt 0, PyInt 0, PyInt 0]\<rparr>))"

definition load_mag :: "calib \<Rightarrow> IMUData \<Rightarrow> (py_error + unit) \<times> IMUData" where
  "load_mag cd s =
     (if cd ''magx_offset'' \<noteq> None then
        (case coefficients cd ''mag'' ''scale'' of
           Inl e \<Rightarrow> (Inl e, s)
         | Inr sc \<Rightarrow>
             (case coefficients cd ''mag'' ''offset'' of
                Inl e \<Rightarrow> (Inl e, s\<lparr>mag_scale := Some sc\<rparr>)
              | Inr off \<Rightarrow>
                  (Inr (), s\<lparr>mag_scale := Some sc, mag_offsets := Some off,
                              has_mag_calib := True\<rparr>)))
      else
        (Inr (), s\<lparr>mag_offsets := Some [PyFloat 1, PyFloat 1, PyFloat 1],
                    mag_scale := Some [PyInt 0, PyInt 0, PyInt 0]\<rparr>))"

definition load_calibration :: "calib option \<Rightarrow> IMUData \<Rightarrow> (py_error + bool) \<times> IMUData" where
  "load_calibration cdo s =
     (case cdo of
        None \<Rightarrow> (Inr False, s)
      | Some cd \<Rightarrow>
          (case load_acc cd s of
             (Inl e, s1) \<Rightarrow> (Inl e, s1)
           | (Inr _, s1) \<Rightarrow>
               (case load_gyro cd s1 of
                  (Inl e, s2) \<Rightarrow> (Inl e, s2)
                | (Inr _, s2) \<Rightarrow>
                    (case load_mag cd s2 of
                       (Inl e, s3) \<Rightarrow> (Inl e, s3)
                     | (Inr _, s3) \<Rightarrow> (Inr True, s3\<lparr>use_calibration := True\<rparr>)))))"

text \<open>\<open>reset\<close>; \<open>now\<close> is the value \<open>time.time()\<close> returns in it.\<close>

definition reset :: "real \<Rightarrow> IMUData \<Rightarrow> (py_error + unit) \<times> IMUData" where
  "reset now s =
     (let s0 = s\<lparr>acc := [PyFloat 0, PyFloat 0, PyFloat 0],
                  mag := [PyInt 0, PyInt 0, PyInt 0],
                  gyro := [PyInt 0, PyInt 0, PyInt 0],
                  acc_scale := [PyFloat 1, PyFloat 1, PyFloat 1],
                  acc_offsets := [PyInt 0, PyInt 0, PyInt 0],
                  seq := 0,
                  use_calibration := False,
                  has_acc_calib_u := False,
                  has_mag_calib := False,
                  has_gyro_calib := False\<rparr>
      in case load_calibration (calibration_data s0) s0 of
           (Inl e, s1) \<Rightarrow> (Inl e, s1)
         | (Inr _, s1) \<Rightarrow>
             (Inr (), s1\<lparr>packet_metadata := [], packet_start := now, packets_lost := 0\<rparr>))"

text \<open>
  \<open>__init__\<close>: stores the mapping and the index, then calls \<open>reset\<close>. The object before
  \<open>reset\<close> has no other attribute; the fields \<open>reset\<close> assigns are overwritten there.
\<close>

definition IMUData_init :: "int \<Rightarrow> calib option \<Rightarrow> real \<Rightarrow> (py_error + unit) \<times> IMUData" where
  "IMUData_init idx cd now =
     reset now \<lparr>calibration_data = cd, index = idx, acc = [], mag = [], gyro = [],
                acc_scale = [], acc_offsets = [], gyro_offsets = None, mag_scale = None,
                mag_offsets = None, seq = 0, timestamp = None, use_calibration = False,
                has_acc_calib_u = False, has_acc_calib = None, has_mag_calib = False,
                has_gyro_calib = False, packet_metadata = [], packet_start = 0,
                packets_lost = 0\<rparr>"

definition get_sample_rate :: "real \<Rightarrow> IMUData \<Rightarrow> pynum" where
  "get_sample_rate now s =
     (if now - packet_start s < PACKET_PERIOD then PyInt (- 1)
      else PyFloat (real (length (packet_metadata s)) / PACKET_PERIOD))"

definition get_packets_lost :: "real \<Rightarrow> IMUData \<Rightarrow> int" where
  "get_packets_lost now s =
     (let sample_rate = get_sample_rate now s
      in if val sample_rate = - 1 then - 1
         else sum_list (map snd (packet_metadata s)))"

definition get_total_packets_lost :: "IMUData \<Rightarrow> int" where
  "get_total_packets_lost s = packets_lost s"

definition set_calibration :: "bool \<Rightarrow> IMUData \<Rightarrow> IMUData" where
  "set_calibration state s = s\<lparr>use_calibration := state\<rparr>"

definition get_calibration :: "IMUData \<Rightarrow> bool" where
  "get_calibration s = use_calibration s"

text \<open>
  \<open>_get_cal\<close>: \<open>(raw[x] * scale[x]) - offset[x]\<close> for \<open>x\<close> in \<open>range(len(raw))\<close>, evaluated in
  that order: a \<open>scale\<close> or \<open>offset\<close> that has no entry \<open>x\<close> raises IndexError.
\<close>

definition cal_at :: "pynum list \<Rightarrow> pynum list \<Rightarrow> pynum list \<Rightarrow> nat \<Rightarrow> py_error + pynum" where
  "cal_at raw offset scale x =
     (if x < length scale then
        (case py_mul (raw ! x) (scale ! x) of
           Inl e \<Rightarrow> Inl e
         | Inr p \<Rightarrow> if x < length offset then py_sub p (offset ! x) else Inl IndexError)
      else Inl IndexError)"

definition get_cal :: "pynum list \<Rightarrow> pynum list \<Rightarrow> pynum list \<Rightarrow> bool \<Rightarrow> py_error + pynum list" where
  "get_cal raw offset scale ignore_cal =
     (if ignore_cal then Inr raw
      else all_or_error (map (cal_at raw offset scale) [0..<length raw]))"

text \<open>
  The loop at the end of \<open>update\<close>:
  \<open>while now - self._packet_metadata[-1][0] > PACKET_PERIOD: self._packet_metadata.pop()\<close>.
  Reading \<open>[-1]\<close> of the empty list raises IndexError.
\<close>

function prune :: "real \<Rightarrow> (real \<times> int) list \<Rightarrow> (py_error + unit) \<times> (real \<times> int) list" where
  "prune now md =
     (if md = [] then (Inl IndexError, md)
      else if now - fst (last md) > PACKET_PERIOD then prune now (butlast md)
      else (Inr (), md))"
  by pat_completeness auto
termination
  by (relation "measure (\<lambda>(now, md). length md)") auto

declare prune.simps [simp del]

text \<open>The calibration stage of \<open>update\<close> (the \<open>if not self._use_calibration\<close> statement).\<close>

definition calibrate :: "pynum list \<Rightarrow> pynum list \<Rightarrow> pynum list \<Rightarrow> IMUData \<Rightarrow> (py_error + unit) \<times> IMUData" where
  "calibrate a g m s =
     (if \<not> use_calibration s then (Inr (), s\<lparr>acc := a, gyro := g, mag := m\<rparr>)
      else
        (case get_cal a (acc_offsets s) (acc_scale s) False of
           Inl e \<Rightarrow> (Inl e, s)
         | Inr ca \<Rightarrow>
        (case all_or_error (map py_int ca) of
           Inl e \<Rightarrow> (Inl e, s)
         | Inr ia \<Rightarrow>
             (let s1 = s\<lparr>acc := ia\<rparr>
              in case gyro_offsets s1 of
                   None \<Rightarrow> (Inl AttributeError, s1)
                 | Some go \<Rightarrow>
                     (case get_cal g go [PyFloat 1, PyFloat 1, PyFloat 1] False of
                        Inl e \<Rightarrow> (Inl e, s1)
                      | Inr cg \<Rightarrow>
                          (let s2 = s1\<lparr>gyro := cg\<rparr>
                           in case (mag_offsets s2, mag_scale s2) of
                                (Some mo, Some ms) \<Rightarrow>
                                  (case get_cal m mo ms False of
                                     Inl e \<Rightarrow> (Inl e, s2)
                                   | Inr cm \<Rightarrow>
                                       (case all_or_error (map py_int cm) of
                                          Inl e \<Rightarrow> (Inl e, s2)
                                        | Inr im \<Rightarrow> (Inr (), s2\<lparr>mag := im\<rparr>)))
                              | _ \<Rightarrow> (Inl AttributeError, s2)))))))"

text \<open>The sequence-number stage of \<open>update\<close>: the value of \<open>dropped\<close>.\<close>

definition dropped_of :: "int \<Rightarrow> int \<Rightarrow> int" where
  "dropped_of last_seq sq =
     (if last_seq \<noteq> - 1 then
        (let expected = (last_seq + 1) mod 256
         in if expected \<noteq> sq then (expected - sq) mod 256 else 0)
      else 0)"

definition update :: "pynum list \<Rightarrow> pynum list \<Rightarrow> pynum list \<Rightarrow> int \<Rightarrow> real \<Rightarrow> real \<Rightarrow> IMUData
    \<Rightarrow> (py_error + unit) \<times> IMUData" where
  "update a g m sq ts now s =
     (case calibrate a g m s of
        (Inl e, s1) \<Rightarrow> (Inl e, s1)
      | (Inr _, s1) \<Rightarrow>
          (let dropped = dropped_of (seq s1) sq;
               s2 = s1\<lparr>packets_lost := packets_lost s1 + dropped,
                       seq := sq,
                       timestamp := Some ts,
                       packet_metadata := (ts, dropped) # packet_metadata s1\<rparr>
           in case prune now (packet_metadata s2) of
                (r, md) \<Rightarrow> (r, s2\<lparr>packet_metadata := md\<rparr>)))"

section \<open>core.py: class SK8\<close>

subsection \<open>Constants and the transport\<close>

text \<open>
  The module \<open>constants.py\<close> is not among the sources. The UUID constants \<open>core.py\<close> imports
  from it are taken as distinct identifiers, and \<open>bleak.uuids.normalize_uuid_str\<close> as the
  identity on them.
\<close>

datatype uuid = UUID_IMU_SELECTION | UUID_SENSOR_SELECTION | UUID_IMU_CCC | UUID_EXTANA_CCC
  | UUID_EXTANA_IMU_STREAMING | UUID_EXTANA_IMU_STREAMING_TMP

text \<open>
  Modelled from the spec: \<open>MAX_IMUS\<close> of the missing \<open>constants.py\<close>; the spec fixes the IMU
  slots as the indices 0..4.
\<close>

definition MAX_IMUS :: nat where
  "MAX_IMUS = 5"

text \<open>
  Modelled from the spec: \<open>SENSOR_ALL\<close> of the missing \<open>constants.py\<close>; the spec gives the
  sensor selection byte as the bitmask ACC=1, GYRO=2, MAG=4.
\<close>

definition SENSOR_ALL :: int where
  "SENSOR_ALL = 7"

text \<open>
  The BLE transport (\<open>bleak.BleakClient\<close>) is external. It is modelled by what the driver
  can observe of it: whether it is connected, the characteristics of the device (a
  characteristic is identified with its handle), the log of the attribute writes it was
  asked for, and the handles with notifications on. A write or a subscription on a
  connected client with a characteristic of the device is taken as accepted;
  \<open>start_notify\<close> and \<open>stop_notify\<close> without a characteristic raise.
\<close>

record BleakClient =
  is_connected :: bool
  services :: "uuid \<rightharpoonup> nat"
  written :: "(nat \<times> nat list) list"
  notifying :: "nat list"

text \<open>The attributes of \<open>SK8\<close> that the methods below read or assign.\<close>

record SK8 =
  imus :: "IMUData list"
  extana_data :: ExtAnaData
  enabled_imus :: "int list"
  enabled_sensors :: int
  packets :: int
  uuid_chars :: "uuid \<rightharpoonup> nat"
  client :: "BleakClient option"

text \<open>\<open>__init__\<close>; \<open>now x\<close> is the clock reading in the constructor of IMU \<open>x\<close>.\<close>

definition SK8_init :: "(nat \<Rightarrow> real) \<Rightarrow> SK8" where
  "SK8_init now =
     \<lparr>imus = map (\<lambda>x. snd (IMUData_init (int x) None (now x))) [0..<MAX_IMUS],
      extana_data = ExtAnaData_init,
      enabled_imus = [],
      enabled_sensors = SENSOR_ALL,
      packets = 0,
      uuid_chars = Map.empty,
      client = None\<rparr>"

text \<open>The test \<open>self._client is None or not self._client.is_connected\<close>, negated.\<close>

definition check_connected :: "SK8 \<Rightarrow> bool" where
  "check_connected s = (case client s of None \<Rightarrow> False | Some c \<Rightarrow> is_connected c)"

text \<open>\<open>set_calibration\<close>; \<open>self._imus\<close> has \<open>MAX_IMUS\<close> entries, so the index is in range.\<close>

definition SK8_set_calibration :: "bool \<Rightarrow> int list \<Rightarrow> SK8 \<Rightarrow> SK8" where
  "SK8_set_calibration enabled is s =
     (let is' = (if length is = 0 then map int [0..<MAX_IMUS] else is)
      in fold (\<lambda>i s'. if i < 0 \<or> i \<ge> int MAX_IMUS then s'
                       else s'\<lparr>imus := (imus s')[nat i := set_calibration enabled (imus s' ! nat i)]\<rparr>)
              is' s)"

definition SK8_get_calibration :: "SK8 \<Rightarrow> bool list" where
  "SK8_get_calibration s = map get_calibration (imus s)"

definition get_characteristic_from_uuid :: "uuid \<Rightarrow> SK8 \<Rightarrow> nat option \<times> SK8" where
  "get_characteristic_from_uuid u s =
     (case client s of
        None \<Rightarrow> (None, s)
      | Some c \<Rightarrow>
          if \<not> is_connected c then (None, s)
          else (case uuid_chars s u of
                  Some ch \<Rightarrow> (Some ch, s)
                | None \<Rightarrow>
                    (case services c u of
                       None \<Rightarrow> (None, s)
                     | Some ch \<Rightarrow> (Some ch, s\<lparr>uuid_chars := (uuid_chars s)(u \<mapsto> ch)\<rparr>))))"

definition get_characteristic_handle_from_uuid :: "uuid \<Rightarrow> SK8 \<Rightarrow> nat option \<times> SK8" where
  "get_characteristic_handle_from_uuid u s = get_characteristic_from_uuid u s"

definition write_attribute :: "nat \<Rightarrow> nat list \<Rightarrow> SK8 \<Rightarrow> SK8" where
  "write_attribute handle data s =
     (case client s of
        None \<Rightarrow> s
      | Some c \<Rightarrow>
          if \<not> is_connected c then s
          else s\<lparr>client := Some (c\<lparr>written := written c @ [(handle, data)]\<rparr>)\<rparr>)"

definition start_notify :: "nat option \<Rightarrow> SK8 \<Rightarrow> (py_error + unit) \<times> SK8" where
  "start_notify ch s =
     (case (ch, client s) of
        (Some h, Some c) \<Rightarrow> (Inr (), s\<lparr>client := Some (c\<lparr>notifying := h # notifying c\<rparr>)\<rparr>)
      | _ \<Rightarrow> (Inl BleakError, s))"

definition stop_notify :: "nat option \<Rightarrow> SK8 \<Rightarrow> (py_error + unit) \<times> SK8" where
  "stop_notify ch s =
     (case (ch, client s) of
        (Some h, Some c) \<Rightarrow> (Inr (), s\<lparr>client := Some (c\<lparr>notifying := removeAll h (notifying c)\<rparr>)\<rparr>)
      | _ \<Rightarrow> (Inl BleakError, s))"

text \<open>\<open>struct.pack('B', v)\<close>: one byte, struct.error unless \<open>0 \<le> v \<le> 255\<close>.\<close>

definition pack_B :: "int \<Rightarrow> py_error + nat list" where
  "pack_B v = (if 0 \<le> v \<and> v \<le> 255 then Inr [nat v] else Inl StructError)"

text \<open>
  \<open>for imu in enabled_imus: imus_enabled |= (1 << imu)\<close>; a negative shift count raises
  ValueError.
\<close>

fun imus_mask :: "int \<Rightarrow> int list \<Rightarrow> py_error + int" where
  "imus_mask imus_enabled [] = Inr imus_enabled"
| "imus_mask imus_enabled (imu # rest) =
     (if imu < 0 then Inl ValueError
      else imus_mask (imus_enabled OR push_bit (nat imu) 1) rest)"

subsection \<open>Streaming\<close>

definition enable_imu_streaming :: "int list \<Rightarrow> int \<Rightarrow> SK8 \<Rightarrow> (py_error + bool) \<times> SK8" where
  "enable_imu_streaming en_imus en_sensors s =
     (if \<not> check_connected s then (Inr False, s)
      else
        (case imus_mask 0 en_imus of
           Inl e \<Rightarrow> (Inl e, s)
         | Inr imus_enabled \<Rightarrow>
             if en_sensors = 0 then (Inr False, s)
             else
               (case get_characteristic_handle_from_uuid UUID_IMU_SELECTION s of
                  (imu_select, s1) \<Rightarrow>
               (case get_characteristic_handle_from_uuid UUID_SENSOR_SELECTION s1 of
                  (sensor_select, s2) \<Rightarrow>
               (case (imu_select, sensor_select) of
                  (Some imu_h, Some sensor_h) \<Rightarrow>
                    (case pack_B imus_enabled of
                       Inl e \<Rightarrow> (Inl e, s2)
                     | Inr d1 \<Rightarrow>
                         (let s3 = write_attribute imu_h d1 s2
                          in case pack_B en_sensors of
                               Inl e \<Rightarrow> (Inl e, s3)
                             | Inr d2 \<Rightarrow>
                                 (let s4 = write_attribute sensor_h d2 s3
                                  in case get_characteristic_from_uuid UUID_IMU_CCC s4 of
                                       (ch, s5) \<Rightarrow>
                                         (case start_notify ch s5 of
                                            (Inl e, s6) \<Rightarrow> (Inl e, s6)
                                          | (Inr _, s6) \<Rightarrow>
                                              (Inr True, s6\<lparr>enabled_imus := en_imus,
                                                             enabled_sensors := en_sensors\<rparr>)))))
                | _ \<Rightarrow> (Inr False, s2))))))"

definition enable_extana_streaming :: "bool \<Rightarrow> int \<Rightarrow> SK8 \<Rightarrow> (py_error + bool) \<times> SK8" where
  "enable_extana_streaming include_imu en_sensors s =
     (if \<not> check_connected s then (Inr False, s)
      else
        (case enable_imu_streaming [0] en_sensors s of
           (Inl e, s1) \<Rightarrow> (Inl e, s1)
         | (Inr _, s1) \<Rightarrow>
             (case get_characteristic_handle_from_uuid UUID_EXTANA_IMU_STREAMING s1 of
                (h, s2) \<Rightarrow>
             (case get_characteristic_handle_from_uuid UUID_EXTANA_IMU_STREAMING_TMP s2 of
                (h_tmp, s3) \<Rightarrow>
                if h = None \<and> h_tmp = None then (Inr False, s3)
                else
                  (let flag = [if include_imu then 1 else 0];
                       s4 = (case h of
                               Some hh \<Rightarrow> write_attribute hh flag s3
                             | None \<Rightarrow>
                                 (case h_tmp of
                                    Some ht \<Rightarrow> write_attribute ht flag s3
                                  | None \<Rightarrow> s3))
                   in case get_characteristic_from_uuid UUID_EXTANA_CCC s4 of
                        (ch, s5) \<Rightarrow>
                          (case start_notify ch s5 of
                             (Inl e, s6) \<Rightarrow> (Inl e, s6)
                           | (Inr _, s6) \<Rightarrow>
                               (let s7 = s6\<lparr>enabled_sensors := en_sensors\<rparr>
                                in (Inr True,
                                    if include_imu then s7\<lparr>enabled_imus := [0]\<rparr> else s7))))))))"

text \<open>
  \<open>for imu in self._imus: imu.reset()\<close>; \<open>now i\<close> is the clock reading in the reset of the
  IMU at position \<open>i\<close>.
\<close>

fun reset_all :: "(nat \<Rightarrow> real) \<Rightarrow> nat \<Rightarrow> IMUData list \<Rightarrow> (py_error + unit) \<times> IMUData list" where
  "reset_all now i [] = (Inr (), [])"
| "reset_all now i (x # xs) =
     (case reset (now i) x of
        (Inl e, x') \<Rightarrow> (Inl e, x' # xs)
      | (Inr _, x') \<Rightarrow> (case reset_all now (Suc i) xs of (r, xs') \<Rightarrow> (r, x' # xs')))"

definition disable_imu_streaming :: "(nat \<Rightarrow> real) \<Rightarrow> SK8 \<Rightarrow> (py_error + bool) \<times> SK8" where
  "disable_imu_streaming now s =
     (if \<not> check_connected s then (Inr False, s)
      else
        (case get_characteristic_from_uuid UUID_IMU_CCC s of
           (ch, s1) \<Rightarrow>
             (case stop_notify ch s1 of
                (Inl e, s2) \<Rightarrow> (Inl e, s2)
              | (Inr _, s2) \<Rightarrow>
                  (case reset_all now 0 (imus s2) of
                     (Inl e, xs) \<Rightarrow> (Inl e, s2\<lparr>imus := xs\<rparr>)
                   | (Inr _, xs) \<Rightarrow> (Inr True, s2\<lparr>imus := xs\<rparr>)))))"

definition disable_extana_streaming :: "(nat \<Rightarrow> real) \<Rightarrow> SK8 \<Rightarrow> (py_error + bool) \<times> SK8" where
  "disable_extana_streaming now s =
     (if \<not> check_connected s then (Inr False, s)
      else
        (case get_characteristic_from_uuid UUID_EXTANA_CCC s of
           (ch, s1) \<Rightarrow>
             (case stop_notify ch s1 of
                (Inl e, s2) \<Rightarrow> (Inl e, s2)
              | (Inr _, s2) \<Rightarrow>
                  (case reset_all now 0 (imus s2) of
                     (Inl e, xs) \<Rightarrow> (Inl e, s2\<lparr>imus := xs\<rparr>)
                   | (Inr _, xs) \<Rightarrow> (Inr True, s2\<lparr>imus := xs, enabled_imus := []\<rparr>)))))"

definition get_enabled_imus :: "SK8 \<Rightarrow> int list" where
  "get_enabled_imus s = enabled_imus s"

definition get_enabled_sensors :: "SK8 \<Rightarrow> int" where
  "get_enabled_sensors s = enabled_sensors s"

section \<open>Example objects\<close>

text \<open>Raw samples as \<open>_imu_callback\<close> passes them: signed 16-bit integers.\<close>

definition raw_acc :: "pynum list" where
  "raw_acc = [PyInt 7, PyInt 7, PyInt 7]"

definition raw_gyro :: "pynum list" where
  "raw_gyro = [PyInt 4, PyInt 5, PyInt 6]"

definition raw_mag :: "pynum list" where
  "raw_mag = [PyInt 100, PyInt 200, PyInt 300]"

text \<open>\<open>IMUData(0)\<close>, constructed at time 0.\<close>

definition fresh_imu :: IMUData where
  "fresh_imu = snd (IMUData_init 0 None 0)"

text \<open>
  A calibration section that holds accelerometer coefficients only (scale 0.25, offset 0,
  all exact in binary floating point), and \<open>IMUData(0, acc_only)\<close>.
\<close>

definition acc_only :: calib where
  "acc_only = map_of
     [(''accx_offset'', Numeric 0), (''accy_offset'', Numeric 0), (''accz_offset'', Numeric 0),
      (''accx_scale'', Numeric (1/4)), (''accy_scale'', Numeric (1/4)),
      (''accz_scale'', Numeric (1/4))]"

definition acc_calibrated_imu :: IMUData where
  "acc_calibrated_imu = snd (IMUData_init 0 (Some acc_only) 0)"

text \<open>
  A connected SK8 that has the five characteristics of current firmware (not the
  temporary ExtAna flag), and the session connected to it (no calibration file found),
  before and after \<open>enable_imu_streaming([0, 2], 3)\<close>.
\<close>

definition sk8_device :: BleakClient where
  "sk8_device =
     \<lparr>is_connected = True,
      services = map_of [(UUID_IMU_SELECTION, 10), (UUID_SENSOR_SELECTION, 11),
                         (UUID_IMU_CCC, 12), (UUID_EXTANA_CCC, 13),
                         (UUID_EXTANA_IMU_STREAMING, 14)],
      written = [],
      notifying = []\<rparr>"

definition idle_session :: SK8 where
  "idle_session = (SK8_init (\<lambda>_. 0))\<lparr>client := Some sk8_device\<rparr>"

definition imu_session :: SK8 where
  "imu_session = snd (enable_imu_streaming [0, 2] 3 idle_session)"

text \<open>Trackers whose last sequence number is 254 and 10.\<close>

definition imu_at_254 :: IMUData where
  "imu_at_254 = snd (update raw_acc raw_gyro raw_mag 254 0 0 fresh_imu)"

definition imu_at_10 :: IMUData where
  "imu_at_10 = snd (update raw_acc raw_gyro raw_mag 10 0 0 fresh_imu)"

text \<open>
  A tracker that received a packet of timestamp 3 at time 3 and then a packet of
  timestamp 0, also at time 3.
\<close>

definition out_of_order_imu :: IMUData where
  "out_of_order_imu =
     snd (update raw_acc raw_gyro raw_mag 2 0 3 (snd (update raw_acc raw_gyro raw_mag 1 3 3 fresh_imu)))"

text \<open>The session \<open>imu_session\<close> after the user has called \<open>set_calibration(True, [])\<close>.\<close>

definition calibrated_session :: SK8 where
  "calibrated_session = SK8_set_calibration True [] imu_session"

text \<open>
  \<open>IMUData(0)\<close> after the user loaded accelerometer coefficients with
  \<open>load_calibration(acc_only)\<close>.
\<close>

definition loaded_imu :: IMUData where
  "loaded_imu = snd (load_calibration (Some acc_only) fresh_imu)"

text \<open>The session after \<open>enable_extana_streaming(False, 7)\<close> from idle.\<close>

definition extana_session :: SK8 where
  "extana_session = snd (enable_extana_streaming False 7 idle_session)"

section \<open>Notions used in the statements about sessions\<close>

text \<open>
  A characteristic is available to a session when it is in the cache or the connected
  device has it; \<open>written_log\<close> is the sequence of attribute writes sent so far.
\<close>

definition available :: "uuid \<Rightarrow> SK8 \<Rightarrow> bool" where
  "available u s =
     (case client s of
        None \<Rightarrow> False
      | Some c \<Rightarrow> uuid_chars s u \<noteq> None \<or> services c u \<noteq> None)"

definition written_log :: "SK8 \<Rightarrow> (nat \<times> nat list) list" where
  "written_log s = (case client s of None \<Rightarrow> [] | Some c \<Rightarrow> written c)"

definition notifying_handles :: "SK8 \<Rightarrow> nat list" where
  "notifying_handles s = (case client s of None \<Rightarrow> [] | Some c \<Rightarrow> notifying c)"

text \<open>
  \<open>handle_of u s\<close> is the handle the session resolves the characteristic \<open>u\<close> to (what
  \<open>_get_characteristic_handle_from_uuid\<close> returns in the state \<open>s\<close>), and \<open>flag_handle s\<close>
  the handle \<open>enable_extana_streaming\<close> writes its flag to: the ExtAna flag
  characteristic, or the temporary one when the device lacks the first.
\<close>

definition handle_of :: "uuid \<Rightarrow> SK8 \<Rightarrow> nat option" where
  "handle_of u s = fst (get_characteristic_handle_from_uuid u s)"

definition flag_handle :: "SK8 \<Rightarrow> nat option" where
  "flag_handle s =
     (case handle_of UUID_EXTANA_IMU_STREAMING s of
        Some h \<Rightarrow> Some h
      | None \<Rightarrow> handle_of UUID_EXTANA_IMU_STREAMING_TMP s)"

text \<open>
  Truncation toward zero, said without \<open>trunc\<close>: \<open>n\<close> is the integer part of \<open>x\<close> when it
  has the sign of \<open>x\<close> and its magnitude is the largest integer not above that of \<open>x\<close>.
  \<open>truncation_of v k\<close>: the Python number \<open>k\<close> is the int that is the integer part of the
  finite number \<open>v\<close>.
\<close>

definition truncated_to :: "real \<Rightarrow> int \<Rightarrow> bool" where
  "truncated_to x n =
     (\<bar>of_int n\<bar> \<le> \<bar>x\<bar> \<and> \<bar>x\<bar> < \<bar>of_int n\<bar> + 1 \<and> 0 \<le> of_int n * x)"

definition truncation_of :: "pynum \<Rightarrow> pynum \<Rightarrow> bool" where
  "truncation_of v k =
     (case (v, k) of
        (PyInt i, PyInt n) \<Rightarrow> n = i
      | (PyFloat x, PyInt n) \<Rightarrow> truncated_to x n
      | _ \<Rightarrow> False)"

text \<open>The state of one \<open>IMUData\<close> that \<open>reset\<close> leaves when it was constructed without data.\<close>

definition is_reset :: "IMUData \<Rightarrow> bool" where
  "is_reset x =
     (packet_metadata x = [] \<and> seq x = 0 \<and> packets_lost x = 0 \<and>
      \<not> use_calibration x \<and>
      acc_scale x = [PyFloat 1, PyFloat 1, PyFloat 1] \<and>
      acc_offsets x = [PyInt 0, PyInt 0, PyInt 0])"

section \<open>Floating-point values used in the examples\<close>

text \<open>Small integers and quarters are doubles: rounding returns them unchanged.\<close>

lemma to_double_values:
  "to_double 0 = PyFloat 0" "to_double 1 = PyFloat 1" "to_double 4 = PyFloat 4" "to_double 5 = PyFloat 5"
  "to_double 6 = PyFloat 6" "to_double 7 = PyFloat 7" "to_double (- 1) = PyFloat (- 1)"
  "to_double (1 / 4) = PyFloat (1 / 4)" "to_double (7 / 4) = PyFloat (7 / 4)"
  by (simp_all add: to_double_def quantum_def binexp_def pow2_def round_even_def compute_bitlen)

text \<open>
  Rounding is not exact arithmetic: the numeral \<open>0.3333333333333333\<close> is read as a double
  below one third, and three times that double is the double \<open>1.0\<close>.
\<close>

lemma third_scale_rounds_to_one:
  "py_float (Numeric (3333333333333333 / 10 ^ 16)) =
     Some (PyFloat (6004799503160661 / 2 ^ 54))"
  "py_mul (PyInt 3) (PyFloat (6004799503160661 / 2 ^ 54)) = Inr (PyFloat 1)"
  by (simp_all add: to_double_def quantum_def binexp_def pow2_def round_even_def compute_bitlen)

section \<open>The example objects, evaluated\<close>

lemma fresh_imu_eq:
  "fresh_imu =
     \<lparr>calibration_data = None, index = 0, acc = [PyFloat 0, PyFloat 0, PyFloat 0],
      mag = [PyInt 0, PyInt 0, PyInt 0], gyro = [PyInt 0, PyInt 0, PyInt 0],
      acc_scale = [PyFloat 1, PyFloat 1, PyFloat 1],
      acc_offsets = [PyInt 0, PyInt 0, PyInt 0], gyro_offsets = None,
      mag_scale = None, mag_offsets = None, seq = 0, timestamp = None,
      use_calibration = False, has_acc_calib_u = False, has_acc_calib = None,
      has_mag_calib = False, has_gyro_calib = False, packet_metadata = [],
      packet_start = 0, packets_lost = 0\<rparr>"
  by (simp add: fresh_imu_def IMUData_init_def reset_def load_calibration_def)

lemma first_update:
  "update raw_acc raw_gyro raw_mag 5 0 0 fresh_imu =
     (Inr (), fresh_imu\<lparr>acc := raw_acc, gyro := raw_gyro, mag := raw_mag, packets_lost := 252,
                         seq := 5, timestamp := Some 0, packet_metadata := [(0, 252)]\<rparr>)"
  by (simp add: fresh_imu_eq update_def calibrate_def dropped_of_def PACKET_PERIOD_def prune.simps)

lemma acc_calibrated_imu_eq:
  "acc_calibrated_imu =
     \<lparr>calibration_data = Some acc_only, index = 0, acc = [PyFloat 0, PyFloat 0, PyFloat 0],
      mag = [PyInt 0, PyInt 0, PyInt 0], gyro = [PyInt 0, PyInt 0, PyInt 0],
      acc_scale = [PyFloat (1 / 4), PyFloat (1 / 4), PyFloat (1 / 4)],
      acc_offsets = [PyFloat 0, PyFloat 0, PyFloat 0],
      gyro_offsets = Some [PyInt 0, PyInt 0, PyInt 0],
      mag_scale = Some [PyInt 0, PyInt 0, PyInt 0],
      mag_offsets = Some [PyFloat 1, PyFloat 1, PyFloat 1], seq = 0,
      timestamp = None, use_calibration = True, has_acc_calib_u = False,
      has_acc_calib = Some True, has_mag_calib = False,
      has_gyro_calib = False, packet_metadata = [], packet_start = 0,
      packets_lost = 0\<rparr>"
  by (simp add: acc_calibrated_imu_def IMUData_init_def reset_def load_calibration_def
      load_acc_def load_gyro_def load_mag_def coefficients_def axes_def acc_only_def
      to_double_values)

lemma calibrated_update:
  "update raw_acc raw_gyro raw_mag 1 0 0 acc_calibrated_imu =
     (Inr (), acc_calibrated_imu\<lparr>acc := [PyInt 1, PyInt 1, PyInt 1],
        gyro := [PyFloat 4, PyFloat 5, PyFloat 6],
        mag := [PyInt (- 1), PyInt (- 1), PyInt (- 1)], packets_lost := 0,
        seq := 1, timestamp := Some 0, packet_metadata := [(0, 0)]\<rparr>)"
  by (simp add: acc_calibrated_imu_eq update_def calibrate_def dropped_of_def PACKET_PERIOD_def
      prune.simps get_cal_def cal_at_def to_double_values raw_acc_def raw_gyro_def raw_mag_def
      trunc_def upt_rec [of 0 "Suc (Suc (Suc 0))"])

section \<open>Loss tracking\<close>

text \<open>
  Claim C3, at a failing input. \<open>reset\<close> sets the sequence number to 0, not to the value
  \<open>-1\<close> that \<open>update\<close> tests for, so the first packet of a fresh \<open>IMUData\<close> is compared
  with an expected sequence number of 1: a first packet numbered 5 counts 252 dropped
  packets, in the lifetime counter and in the window.
\<close>

theorem first_update_counts_loss:
  "fst (update raw_acc raw_gyro raw_mag 5 0 0 fresh_imu) = Inr () \<and>
   seq fresh_imu = 0 \<and> get_total_packets_lost fresh_imu = 0 \<and>
   get_total_packets_lost (snd (update raw_acc raw_gyro raw_mag 5 0 0 fresh_imu)) = 252 \<and>
   packet_metadata (snd (update raw_acc raw_gyro raw_mag 5 0 0 fresh_imu)) = [(0, 252)]"
  by (simp only: first_update) (simp add: fresh_imu_eq get_total_packets_lost_def)

text \<open>
  Claim C7, refuted: \<open>ExtAnaData.update\<close> does not look at the previous sequence number.
  After sequence number 4 and after sequence number 200, a packet numbered 5 leaves the
  same object, so nothing in it counts the packets dropped in between.
\<close>

theorem extana_update_ignores_previous_seq:
  "ExtAnaData_update 1 2 2150 5 7 (ExtAnaData_update 1 2 2150 4 6 ExtAnaData_init) =
   ExtAnaData_update 1 2 2150 5 7 (ExtAnaData_update 1 2 2150 200 6 ExtAnaData_init)"
  by (simp add: ExtAnaData_update_def)

text \<open>
  Claim C7, amended. \<open>ExtAnaData.update\<close> stores the two channels, the temperature divided
  by 100, the sequence number and the timestamp of the packet, and nothing else: the
  object has no dropped-packet counter and the result does not depend on the object
  before the call.
\<close>

theorem extana_update_stores_packet_only:
  "ExtAnaData_update c1 c2 t sq ts e =
     \<lparr>ch1 = c1, ch2 = c2, temp = PyFloat (real_of_int t / 100), seq = sq, timestamp = ts\<rparr>"
  by (simp add: ExtAnaData_update_def)

section \<open>Calibration\<close>

text \<open>
  Claim C4, at a failing input. When the mapping has no \<open>magx_offset\<close>, \<open>load_calibration\<close>
  assigns \<open>(1., 1., 1.)\<close> to \<open>mag_offsets\<close> and \<open>(0, 0, 0)\<close> to \<open>mag_scale\<close>, the reverse of
  what it assigns for an absent accelerometer section; \<open>update\<close> then computes
  \<open>raw * 0 - 1\<close>, and the magnetometer sample (100, 200, 300) is stored as (-1, -1, -1).
\<close>

theorem absent_mag_section_degenerate:
  "acc_only ''magx_offset'' = None \<and>
   use_calibration acc_calibrated_imu \<and>
   fst (update raw_acc raw_gyro raw_mag 1 0 0 acc_calibrated_imu) = Inr () \<and>
   raw_mag = [PyInt 100, PyInt 200, PyInt 300] \<and>
   mag (snd (update raw_acc raw_gyro raw_mag 1 0 0 acc_calibrated_imu)) =
     [PyInt (- 1), PyInt (- 1), PyInt (- 1)]"
  by (simp only: calibrated_update) (simp add: acc_calibrated_imu_eq acc_only_def raw_mag_def)

section \<open>The sequence-number stage of update\<close>

lemma imu_at_254_eq:
  "imu_at_254 = fresh_imu\<lparr>acc := raw_acc, gyro := raw_gyro, mag := raw_mag, packets_lost := 3,
                           seq := 254, timestamp := Some 0, packet_metadata := [(0, 3)]\<rparr>"
  by (simp add: imu_at_254_def fresh_imu_eq update_def calibrate_def dropped_of_def
      PACKET_PERIOD_def prune.simps)

lemma imu_at_10_eq:
  "imu_at_10 = fresh_imu\<lparr>acc := raw_acc, gyro := raw_gyro, mag := raw_mag, packets_lost := 247,
                          seq := 10, timestamp := Some 0, packet_metadata := [(0, 247)]\<rparr>"
  by (simp add: imu_at_10_def fresh_imu_eq update_def calibrate_def dropped_of_def
      PACKET_PERIOD_def prune.simps)

lemma update_at_254:
  "update raw_acc raw_gyro raw_mag 0 1 1 imu_at_254 =
     (Inr (), imu_at_254\<lparr>acc := raw_acc, gyro := raw_gyro, mag := raw_mag, packets_lost := 258,
                          seq := 0, timestamp := Some 1, packet_metadata := [(1, 255), (0, 3)]\<rparr>)"
  by (simp add: imu_at_254_eq fresh_imu_eq update_def calibrate_def dropped_of_def
      PACKET_PERIOD_def prune.simps)

lemma update_at_10:
  "update raw_acc raw_gyro raw_mag 10 1 1 imu_at_10 =
     (Inr (), imu_at_10\<lparr>acc := raw_acc, gyro := raw_gyro, mag := raw_mag, packets_lost := 248,
                          seq := 10, timestamp := Some 1, packet_metadata := [(1, 1), (0, 247)]\<rparr>)"
  by (simp add: imu_at_10_eq fresh_imu_eq update_def calibrate_def dropped_of_def
      PACKET_PERIOD_def prune.simps)

text \<open>The calibration stage leaves the loss-tracking attributes alone.\<close>

lemma calibrate_frame:
  "calibrate a g m s = (r, s1) \<Longrightarrow>
   seq s1 = seq s \<and> packets_lost s1 = packets_lost s \<and>
   packet_metadata s1 = packet_metadata s \<and> packet_start s1 = packet_start s"
  by (auto simp: calibrate_def Let_def split: if_splits sum.splits option.splits)

text \<open>
  When the pruning loop ends without an exception, what is left is a non-empty front part
  of the window whose last entry is not older than the period.
\<close>

lemma prune_returns:
  "prune now md = (Inr (), md') \<Longrightarrow>
   md' \<noteq> [] \<and> (\<exists>dr. md = md' @ dr) \<and> now - fst (last md') \<le> PACKET_PERIOD"
proof (induction now md rule: prune.induct)
  case (1 now md)
  show ?case
  proof (cases "md = []")
    case True
    with "1.prems" show ?thesis by (simp add: prune.simps)
  next
    case False
    show ?thesis
    proof (cases "now - fst (last md) > PACKET_PERIOD")
      case True
      with False "1.prems" have "prune now (butlast md) = (Inr (), md')"
        by (simp add: prune.simps [of now md])
      with "1.IH" False True
      have ih: "md' \<noteq> [] \<and> (\<exists>dr. butlast md = md' @ dr) \<and> now - fst (last md') \<le> PACKET_PERIOD"
        by blast
      then obtain dr where "butlast md = md' @ dr" by blast
      with False have "md = md' @ (dr @ [last md])"
        by (metis append_assoc append_butlast_last_id)
      with ih show ?thesis by blast
    next
      case notold: False
      with False "1.prems" have "md' = md"
        by (simp add: prune.simps [of now md])
      with False notold show ?thesis by auto
    qed
  qed
qed

text \<open>
  Claim C2, at a failing input. \<open>update\<close> computes \<open>(expected - seq) % 256\<close>, the
  difference the wrong way round for a count of missed packets. After sequence number
  254, a packet numbered 0 (one packet, 255, was missed) adds 255 to the lifetime counter
  and records 255 in its window entry, where the claim has 1; after sequence number 10, a
  packet numbered 10 adds and records 1, where the claim has 255.
\<close>

theorem update_dropped_examples:
  "seq imu_at_254 = 254 \<and>
   fst (update raw_acc raw_gyro raw_mag 0 1 1 imu_at_254) = Inr () \<and>
   packets_lost (snd (update raw_acc raw_gyro raw_mag 0 1 1 imu_at_254)) =
     packets_lost imu_at_254 + 255 \<and>
   hd (packet_metadata (snd (update raw_acc raw_gyro raw_mag 0 1 1 imu_at_254))) = (1, 255) \<and>
   seq imu_at_10 = 10 \<and>
   fst (update raw_acc raw_gyro raw_mag 10 1 1 imu_at_10) = Inr () \<and>
   packets_lost (snd (update raw_acc raw_gyro raw_mag 10 1 1 imu_at_10)) =
     packets_lost imu_at_10 + 1 \<and>
   hd (packet_metadata (snd (update raw_acc raw_gyro raw_mag 10 1 1 imu_at_10))) = (1, 1)"
  by (simp only: update_at_254 update_at_10) (simp add: imu_at_254_eq imu_at_10_eq)

section \<open>Sample rate and recent loss\<close>

lemma reset_packet_start:
  "fst (reset t0 s) = Inr () \<Longrightarrow> packet_start (snd (reset t0 s)) = t0"
  by (auto simp: reset_def Let_def split: prod.splits sum.splits)

lemma update_packet_start:
  "packet_start (snd (update a g m sq ts now s)) = packet_start s"
proof -
  obtain r s1 where c: "calibrate a g m s = (r, s1)" by (cases "calibrate a g m s")
  from calibrate_frame [OF c] c show ?thesis
    by (cases r) (simp_all add: update_def Let_def split: prod.splits)
qed

text \<open>
  Claim C9. \<open>packet_start\<close> is the time of the last \<open>reset\<close> (the constructor calls
  \<open>reset\<close>), and \<open>update\<close> does not change it. Until \<open>PACKET_PERIOD\<close> (3 seconds) has
  passed since then, \<open>get_sample_rate\<close> and \<open>get_packets_lost\<close> both return -1; from then
  on \<open>get_sample_rate\<close> returns the length of the window divided by 3 and
  \<open>get_packets_lost\<close> the sum of the dropped counts of the window entries.
\<close>

theorem sample_rate_and_recent_loss:
  "(fst (reset t0 s0) = Inr () \<longrightarrow> packet_start (snd (reset t0 s0)) = t0) \<and>
   packet_start (snd (update a g m sq ts t s)) = packet_start s \<and>
   (now - packet_start s < PACKET_PERIOD \<longrightarrow>
      get_sample_rate now s = PyInt (- 1) \<and> get_packets_lost now s = - 1) \<and>
   (\<not> now - packet_start s < PACKET_PERIOD \<longrightarrow>
      get_sample_rate now s = PyFloat (real (length (packet_metadata s)) / 3) \<and>
      get_packets_lost now s = sum_list (map snd (packet_metadata s)))"
  using reset_packet_start [of t0 s0] update_packet_start [of a g m sq ts t s]
  by (simp add: get_sample_rate_def get_packets_lost_def PACKET_PERIOD_def)

text \<open>
  C9 on the tracker that was reset at time 0 and received one packet at that time: a
  second packet leaves \<open>packet_start\<close> alone; at time 1 the accessors return the sentinel,
  at time 3 one entry in the window and its 252 dropped packets.
\<close>

theorem sample_rate_and_recent_loss_witness:
  "fst (reset 0 fresh_imu) = Inr () \<and> packet_start (snd (reset 0 fresh_imu)) = 0 \<and>
   packet_start (snd (update raw_acc raw_gyro raw_mag 6 1 1
       (snd (update raw_acc raw_gyro raw_mag 5 0 0 fresh_imu)))) =
     packet_start (snd (update raw_acc raw_gyro raw_mag 5 0 0 fresh_imu)) \<and>
   1 - packet_start (snd (update raw_acc raw_gyro raw_mag 5 0 0 fresh_imu)) < PACKET_PERIOD \<and>
   get_sample_rate 1 (snd (update raw_acc raw_gyro raw_mag 5 0 0 fresh_imu)) = PyInt (- 1) \<and>
   get_packets_lost 1 (snd (update raw_acc raw_gyro raw_mag 5 0 0 fresh_imu)) = - 1 \<and>
   \<not> 3 - packet_start (snd (update raw_acc raw_gyro raw_mag 5 0 0 fresh_imu)) < PACKET_PERIOD \<and>
   get_sample_rate 3 (snd (update raw_acc raw_gyro raw_mag 5 0 0 fresh_imu)) = PyFloat (1 / 3) \<and>
   get_packets_lost 3 (snd (update raw_acc raw_gyro raw_mag 5 0 0 fresh_imu)) = 252"
proof -
  have r: "fst (reset 0 fresh_imu) = Inr ()"
    by (simp add: reset_def load_calibration_def fresh_imu_eq)
  from sample_rate_and_recent_loss
      [of 0 fresh_imu raw_acc raw_gyro raw_mag 6 1 1
        "snd (update raw_acc raw_gyro raw_mag 5 0 0 fresh_imu)" 1]
    sample_rate_and_recent_loss
      [of 0 fresh_imu raw_acc raw_gyro raw_mag 6 1 1
        "snd (update raw_acc raw_gyro raw_mag 5 0 0 fresh_imu)" 3] r
  show ?thesis
    by (simp only: first_update) (simp add: fresh_imu_eq PACKET_PERIOD_def)
qed

section \<open>The calibration stage of update\<close>

lemma all_or_error_Inr:
  "all_or_error rs = Inr vs \<Longrightarrow>
   length vs = length rs \<and> (\<forall>i<length rs. rs ! i = Inr (vs ! i))"
proof (induction rs arbitrary: vs rule: all_or_error.induct)
  case 1
  then show ?case by simp
next
  case (2 e rs)
  then show ?case by simp
next
  case (3 v rs)
  then obtain ws where ws: "all_or_error rs = Inr ws" and vs: "vs = v # ws"
    by (auto split: sum.splits)
  from "3.IH" [OF ws] vs show ?case
    by (auto simp: nth_Cons')
qed

lemma trunc_truncated: "truncated_to r (trunc r)"
proof (cases "0 \<le> r")
  case True
  then have "0 \<le> \<lfloor>r\<rfloor>" by simp
  with True show ?thesis
    by (simp add: truncated_to_def trunc_def)
next
  case False
  then have n: "(0::real) \<le> of_int \<lfloor>- r\<rfloor>" by simp
  from False have r: "r \<le> 0" by simp
  from n r have "of_int \<lfloor>- r\<rfloor> * r \<le> 0" by (rule mult_nonneg_nonpos)
  moreover have "of_int \<lfloor>- r\<rfloor> \<le> - r" "- r < of_int \<lfloor>- r\<rfloor> + 1" by linarith+
  ultimately show ?thesis using False n
    by (simp add: truncated_to_def trunc_def)
qed

lemma py_int_truncation: "py_int v = Inr k \<Longrightarrow> truncation_of v k"
  by (cases v) (auto simp: truncation_of_def trunc_truncated)

lemma is_float_to_double: "is_float (to_double x)"
  by (simp add: to_double_def Let_def)

lemma is_float_fmul: "is_float (fmul x y)"
  by (cases x; cases y) (simp_all add: is_float_to_double)

lemma is_float_fsub: "is_float (fsub x y)"
  by (cases x; cases y) (simp_all add: is_float_to_double)

lemma py_mul_float: "py_mul x (PyFloat c) = Inr p \<Longrightarrow> is_float p"
  by (cases x) (auto simp: is_float_fmul is_float_to_double split: sum.splits pynum.splits)

lemma py_sub_float: "is_float p \<Longrightarrow> py_sub p z = Inr v \<Longrightarrow> is_float v"
  by (cases p; cases z) (auto simp: is_float_fsub is_float_to_double split: sum.splits pynum.splits)

lemma cal_at_Inr:
  "cal_at raw off sc i = Inr v \<Longrightarrow>
   i < length sc \<and> i < length off \<and>
   (\<exists>p. py_mul (raw ! i) (sc ! i) = Inr p \<and> py_sub p (off ! i) = Inr v)"
  by (auto simp: cal_at_def split: if_splits sum.splits)

lemma get_cal_Inr:
  assumes "get_cal raw off sc False = Inr c"
  shows "length c = length raw \<and>
         (\<forall>i<length raw. i < length sc \<and> i < length off \<and>
            (\<exists>p. py_mul (raw ! i) (sc ! i) = Inr p \<and> py_sub p (off ! i) = Inr (c ! i)))"
proof -
  from assms have "all_or_error (map (cal_at raw off sc) [0..<length raw]) = Inr c"
    by (simp add: get_cal_def)
  from all_or_error_Inr [OF this]
  have len: "length c = length raw" and at: "\<forall>i<length raw. cal_at raw off sc i = Inr (c ! i)"
    by simp_all
  have "i < length sc \<and> i < length off \<and>
      (\<exists>p. py_mul (raw ! i) (sc ! i) = Inr p \<and> py_sub p (off ! i) = Inr (c ! i))"
    if "i < length raw" for i
  proof -
    from at that have "cal_at raw off sc i = Inr (c ! i)" by simp
    then show ?thesis by (rule cal_at_Inr)
  qed
  with len show ?thesis by blast
qed

lemma ints_Inr:
  assumes "all_or_error (map py_int c) = Inr k"
  shows "length k = length c \<and> (\<forall>i<length c. truncation_of (c ! i) (k ! i))"
  using all_or_error_Inr [OF assms] by (auto intro: py_int_truncation)

lemma update_calibrate_fields:
  "calibrate a g m s = (Inr (), s1) \<Longrightarrow>
   acc (snd (update a g m sq ts now s)) = acc s1 \<and>
   gyro (snd (update a g m sq ts now s)) = gyro s1 \<and>
   mag (snd (update a g m sq ts now s)) = mag s1"
  by (simp add: update_def Let_def split: prod.splits)

lemma calibrate_calibrated:
  assumes "use_calibration s" and "calibrate a g m s = (Inr (), s1)"
  shows "\<exists>go mo ms ca cg cm.
           gyro_offsets s = Some go \<and> mag_offsets s = Some mo \<and> mag_scale s = Some ms \<and>
           get_cal a (acc_offsets s) (acc_scale s) False = Inr ca \<and>
           all_or_error (map py_int ca) = Inr (acc s1) \<and>
           get_cal g go [PyFloat 1, PyFloat 1, PyFloat 1] False = Inr cg \<and> gyro s1 = cg \<and>
           get_cal m mo ms False = Inr cm \<and>
           all_or_error (map py_int cm) = Inr (mag s1)"
  using assms
  by (auto simp: calibrate_def Let_def split: sum.splits option.splits)


lemma calibration_stage_passes:
  "calibrate raw_acc raw_gyro raw_mag acc_calibrated_imu =
     (Inr (), acc_calibrated_imu\<lparr>acc := [PyInt 1, PyInt 1, PyInt 1],
        gyro := [PyFloat 4, PyFloat 5, PyFloat 6],
        mag := [PyInt (- 1), PyInt (- 1), PyInt (- 1)]\<rparr>)"
  by (simp add: acc_calibrated_imu_eq calibrate_def get_cal_def cal_at_def to_double_values
      raw_acc_def raw_gyro_def raw_mag_def trunc_def upt_rec [of 0 "Suc (Suc (Suc 0))"])

lemma quarter_scale_arithmetic:
  "py_mul (PyInt 7) (PyFloat (1 / 4)) = Inr (PyFloat (7 / 4))"
  "py_sub (PyFloat (7 / 4)) (PyFloat 0) = Inr (PyFloat (7 / 4))"
  "py_int (PyFloat (7 / 4)) = Inr (PyInt 1)"
  by (simp_all add: to_double_values trunc_def)

text \<open>
  Claim C8, refuted: \<open>update\<close> converts with \<open>int\<close>, which truncates. With scale 0.25 and
  offset 0 the accelerometer sample 7 gives the double 1.75 (the product and the
  difference are exact) and \<open>int(1.75) = 1\<close>, while the nearest integer to 1.75 is 2.
\<close>

theorem calibrated_update_not_rounded:
  "use_calibration acc_calibrated_imu \<and>
   acc_scale acc_calibrated_imu = [PyFloat (1 / 4), PyFloat (1 / 4), PyFloat (1 / 4)] \<and>
   acc_offsets acc_calibrated_imu = [PyFloat 0, PyFloat 0, PyFloat 0] \<and>
   raw_acc = [PyInt 7, PyInt 7, PyInt 7] \<and>
   py_mul (PyInt 7) (PyFloat (1 / 4)) = Inr (PyFloat (7 / 4)) \<and>
   py_sub (PyFloat (7 / 4)) (PyFloat 0) = Inr (PyFloat (7 / 4)) \<and>
   acc (snd (update raw_acc raw_gyro raw_mag 1 0 0 acc_calibrated_imu)) =
     [PyInt 1, PyInt 1, PyInt 1] \<and>
   round (7 / 4 :: real) = 2"
  apply (simp only: calibrated_update quarter_scale_arithmetic)
  apply (simp add: acc_calibrated_imu_eq raw_acc_def round_def)
  done

text \<open>
  Claim C8, amended. In an update with calibration on whose calibration stage raises no
  exception, each accelerometer and magnetometer result is an int, the integer part
  (truncation toward zero, not rounding to nearest) of the number that
  \<open>raw[i] * scale[i] - offset[i]\<close> gives in Python arithmetic, and each gyroscope result
  is the float that \<open>raw[i] * 1.0 - offset[i]\<close> gives, left as it is.
\<close>

theorem calibrated_update_truncates:
  assumes "use_calibration s" and "fst (calibrate a g m s) = Inr ()"
  shows "\<exists>go mo ms.
           gyro_offsets s = Some go \<and> mag_offsets s = Some mo \<and> mag_scale s = Some ms \<and>
           length (acc (snd (update a g m sq ts now s))) = length a \<and>
           (\<forall>i<length a. \<exists>p v.
              py_mul (a ! i) (acc_scale s ! i) = Inr p \<and>
              py_sub p (acc_offsets s ! i) = Inr v \<and>
              truncation_of v (acc (snd (update a g m sq ts now s)) ! i)) \<and>
           length (gyro (snd (update a g m sq ts now s))) = length g \<and>
           (\<forall>i<length g. \<exists>p.
              py_mul (g ! i) (PyFloat 1) = Inr p \<and>
              py_sub p (go ! i) = Inr (gyro (snd (update a g m sq ts now s)) ! i) \<and>
              is_float (gyro (snd (update a g m sq ts now s)) ! i)) \<and>
           length (mag (snd (update a g m sq ts now s))) = length m \<and>
           (\<forall>i<length m. \<exists>p v.
              py_mul (m ! i) (ms ! i) = Inr p \<and>
              py_sub p (mo ! i) = Inr v \<and>
              truncation_of v (mag (snd (update a g m sq ts now s)) ! i))"
proof -
  from assms(2) obtain s1 where c: "calibrate a g m s = (Inr (), s1)"
    by (cases "calibrate a g m s") auto
  from calibrate_calibrated [OF assms(1) c] obtain go mo ms ca cg cm where
    att: "gyro_offsets s = Some go" "mag_offsets s = Some mo" "mag_scale s = Some ms"
    and ca: "get_cal a (acc_offsets s) (acc_scale s) False = Inr ca"
    and ia: "all_or_error (map py_int ca) = Inr (acc s1)"
    and cg: "get_cal g go [PyFloat 1, PyFloat 1, PyFloat 1] False = Inr (gyro s1)"
    and cm: "get_cal m mo ms False = Inr cm"
    and im: "all_or_error (map py_int cm) = Inr (mag s1)"
    by blast
  note f = update_calibrate_fields [OF c, of sq ts now]
  note la = get_cal_Inr [OF ca] and ta = ints_Inr [OF ia]
  note lg = get_cal_Inr [OF cg]
  note lm = get_cal_Inr [OF cm] and tm = ints_Inr [OF im]
  have A: "\<forall>i<length a. \<exists>p v.
      py_mul (a ! i) (acc_scale s ! i) = Inr p \<and> py_sub p (acc_offsets s ! i) = Inr v \<and>
      truncation_of v (acc s1 ! i)"
    using la ta by metis
  have M: "\<forall>i<length m. \<exists>p v.
      py_mul (m ! i) (ms ! i) = Inr p \<and> py_sub p (mo ! i) = Inr v \<and>
      truncation_of v (mag s1 ! i)"
    using lm tm by metis
  have G: "\<exists>p. py_mul (g ! i) (PyFloat 1) = Inr p \<and> py_sub p (go ! i) = Inr (gyro s1 ! i) \<and>
      is_float (gyro s1 ! i)" if i: "i < length g" for i
  proof -
    from lg i have i3: "i < length [PyFloat 1, PyFloat 1, PyFloat (1::real)]" by blast
    then have one: "[PyFloat 1, PyFloat 1, PyFloat 1] ! i = PyFloat 1"
      by (auto simp: nth_Cons' )
    from lg i one obtain p where
      p: "py_mul (g ! i) (PyFloat 1) = Inr p" "py_sub p (go ! i) = Inr (gyro s1 ! i)"
      by metis
    from py_sub_float [OF py_mul_float [OF p(1)] p(2)] p show ?thesis by blast
  qed
  from la ta have "length (acc s1) = length a" by simp
  moreover from lg have "length (gyro s1) = length g" by simp
  moreover from lm tm have "length (mag s1) = length m" by simp
  ultimately show ?thesis using att A G M f by auto
qed

text \<open>
  The amended C8 on the tracker calibrated with accelerometer coefficients only:
  \<open>7 * 0.25 - 0.0 = 1.75\<close> is stored as 1, the gyroscope sample as floats, and
  \<open>100 * 0 - 1.0 = -1.0\<close> as -1.
\<close>

theorem calibrated_update_truncates_witness:
  "use_calibration acc_calibrated_imu \<and>
   fst (calibrate raw_acc raw_gyro raw_mag acc_calibrated_imu) = Inr () \<and>
   gyro_offsets acc_calibrated_imu = Some [PyInt 0, PyInt 0, PyInt 0] \<and>
   mag_offsets acc_calibrated_imu = Some [PyFloat 1, PyFloat 1, PyFloat 1] \<and>
   mag_scale acc_calibrated_imu = Some [PyInt 0, PyInt 0, PyInt 0] \<and>
   acc (snd (update raw_acc raw_gyro raw_mag 1 0 0 acc_calibrated_imu)) =
     [PyInt 1, PyInt 1, PyInt 1] \<and>
   py_mul (PyInt 7) (PyFloat (1 / 4)) = Inr (PyFloat (7 / 4)) \<and>
   py_sub (PyFloat (7 / 4)) (PyFloat 0) = Inr (PyFloat (7 / 4)) \<and>
   truncation_of (PyFloat (7 / 4)) (PyInt 1) \<and>
   gyro (snd (update raw_acc raw_gyro raw_mag 1 0 0 acc_calibrated_imu)) =
     [PyFloat 4, PyFloat 5, PyFloat 6] \<and>
   is_float (PyFloat 4) \<and>
   mag (snd (update raw_acc raw_gyro raw_mag 1 0 0 acc_calibrated_imu)) =
     [PyInt (- 1), PyInt (- 1), PyInt (- 1)] \<and>
   py_mul (PyInt 100) (PyInt 0) = Inr (PyInt 0) \<and>
   py_sub (PyInt 0) (PyFloat 1) = Inr (PyFloat (- 1)) \<and>
   truncation_of (PyFloat (- 1)) (PyInt (- 1))"
proof -
  have h: "use_calibration acc_calibrated_imu"
    "fst (calibrate raw_acc raw_gyro raw_mag acc_calibrated_imu) = Inr ()"
    by (simp_all add: calibration_stage_passes) (simp add: acc_calibrated_imu_eq)
  from calibrated_update_truncates [OF h, of 1 0 0] h
  show ?thesis
    apply (simp only: calibrated_update)
    apply (simp add: acc_calibrated_imu_eq to_double_values truncation_of_def truncated_to_def)
    done
qed

section \<open>The pruning loop of update\<close>

lemma update_after_calibrate:
  "calibrate a g m s = (Inr (), s1) \<Longrightarrow>
   fst (update a g m sq ts now s) =
     fst (prune now ((ts, dropped_of (seq s) sq) # packet_metadata s)) \<and>
   packet_metadata (snd (update a g m sq ts now s)) =
     snd (prune now ((ts, dropped_of (seq s) sq) # packet_metadata s))"
  using calibrate_frame [of a g m s "Inr ()" s1]
  by (simp add: update_def Let_def split: prod.splits)

lemma prune_fresh_head:
  "md \<noteq> [] \<Longrightarrow> now - fst (hd md) \<le> PACKET_PERIOD \<Longrightarrow> fst (prune now md) = Inr ()"
proof (induction now md rule: prune.induct)
  case (1 now md)
  show ?case
  proof (cases "now - fst (last md) > PACKET_PERIOD")
    case True
    with "1.prems" have "hd md \<noteq> last md" by auto
    with "1.prems" have ne: "butlast md \<noteq> []"
      by (cases md) (auto split: if_splits)
    then have "hd (butlast md) = hd md"
      by (cases md) (auto split: if_splits)
    with "1.IH" "1.prems" True ne have "fst (prune now (butlast md)) = Inr ()" by simp
    with "1.prems" True show ?thesis by (simp add: prune.simps [of now md])
  next
    case False
    with "1.prems" show ?thesis by (simp add: prune.simps [of now md])
  qed
qed

lemma prune_all_old:
  "list_all (\<lambda>e. PACKET_PERIOD < now - fst e) md \<Longrightarrow> prune now md = (Inl IndexError, [])"
proof (induction now md rule: prune.induct)
  case (1 now md)
  show ?case
  proof (cases "md = []")
    case True
    then show ?thesis by (simp add: prune.simps)
  next
    case False
    with "1.prems" have old: "PACKET_PERIOD < now - fst (last md)"
      by (simp add: list_all_iff)
    from "1.prems" have "list_all (\<lambda>e. PACKET_PERIOD < now - fst e) (butlast md)"
      by (auto simp: list_all_iff dest: in_set_butlastD)
    with "1.IH" False old have "prune now (butlast md) = (Inl IndexError, [])" by simp
    with False old show ?thesis by (simp add: prune.simps [of now md])
  qed
qed

lemma sorted_front_ages:
  assumes "sorted_wrt (\<lambda>x y. fst y \<le> fst x) (md' @ dr)" "md' \<noteq> []"
    and "now - fst (last md') \<le> PACKET_PERIOD"
  shows "list_all (\<lambda>e. now - fst e \<le> PACKET_PERIOD) md'"
proof -
  from assms(2) obtain xs x where md': "md' = xs @ [x]"
    by (cases md' rule: rev_cases) auto
  with assms(1) have "\<forall>e\<in>set xs. fst x \<le> fst e"
    by (simp add: sorted_wrt_append)
  with assms(3) md' show ?thesis
    by (fastforce simp: list_all_iff)
qed

lemma out_of_order_imu_eq:
  "out_of_order_imu =
     fresh_imu\<lparr>acc := raw_acc, gyro := raw_gyro, mag := raw_mag, packets_lost := 0,
               seq := 2, timestamp := Some 0, packet_metadata := [(0, 0), (3, 0)]\<rparr>"
  by (simp add: out_of_order_imu_def fresh_imu_eq update_def calibrate_def dropped_of_def
      PACKET_PERIOD_def prune.simps)

lemma update_out_of_order:
  "update raw_acc raw_gyro raw_mag 3 6 6 out_of_order_imu =
     (Inr (), out_of_order_imu\<lparr>acc := raw_acc, gyro := raw_gyro, mag := raw_mag,
        packets_lost := 0, seq := 3, timestamp := Some 6,
        packet_metadata := [(6, 0), (0, 0), (3, 0)]\<rparr>)"
  by (simp add: out_of_order_imu_eq fresh_imu_eq update_def calibrate_def dropped_of_def
      PACKET_PERIOD_def prune.simps)

text \<open>
  Claim C10, refuted in its bound on the remaining entries. The loop tests the last entry
  only. Three updates, each with a timestamp not older than the period at its call
  (timestamps 3, 0, 6 at times 3, 3, 6), leave the window (6, 0, 3): the entry with
  timestamp 0 is 6 seconds old and stays.
\<close>

theorem update_pruning_keeps_old_entry:
  "fst (update raw_acc raw_gyro raw_mag 1 3 3 fresh_imu) = Inr () \<and>
   3 - 3 \<le> PACKET_PERIOD \<and> 3 - 0 \<le> PACKET_PERIOD \<and> 6 - 6 \<le> PACKET_PERIOD \<and>
   fst (update raw_acc raw_gyro raw_mag 3 6 6 out_of_order_imu) = Inr () \<and>
   packet_metadata (snd (update raw_acc raw_gyro raw_mag 3 6 6 out_of_order_imu)) =
     [(6, 0), (0, 0), (3, 0)] \<and>
   \<not> list_all (\<lambda>e. 6 - fst e \<le> PACKET_PERIOD)
       (packet_metadata (snd (update raw_acc raw_gyro raw_mag 3 6 6 out_of_order_imu)))"
  apply (simp only: update_out_of_order)
  apply (simp add: out_of_order_imu_eq fresh_imu_eq PACKET_PERIOD_def update_def calibrate_def
      dropped_of_def prune.simps)
  done

text \<open>
  Claim C10, amended. Let the calibration stage of \<open>update\<close> pass. If the new timestamp
  is not older than the period and the window is ordered newest first, the pruning loop
  ends without an exception and leaves a non-empty window in which every entry is at
  most the period old. If the new timestamp is older than the period and no entry of the
  window is newer than it, the loop empties the window and \<open>update\<close> raises IndexError.
\<close>

theorem update_pruning:
  assumes "fst (calibrate a g m s) = Inr ()"
  shows "(now - ts \<le> PACKET_PERIOD \<and> sorted_wrt (\<lambda>x y. fst y \<le> fst x) (packet_metadata s) \<longrightarrow>
            fst (update a g m sq ts now s) = Inr () \<and>
            packet_metadata (snd (update a g m sq ts now s)) \<noteq> [] \<and>
            list_all (\<lambda>e. now - fst e \<le> PACKET_PERIOD)
              (packet_metadata (snd (update a g m sq ts now s)))) \<and>
         (PACKET_PERIOD < now - ts \<and> list_all (\<lambda>e. fst e \<le> ts) (packet_metadata s) \<longrightarrow>
            fst (update a g m sq ts now s) = Inl IndexError \<and>
            packet_metadata (snd (update a g m sq ts now s)) = [])"
proof -
  obtain s1 where c: "calibrate a g m s = (Inr (), s1)"
    using assms by (cases "calibrate a g m s") auto
  let ?new = "(ts, dropped_of (seq s) sq)"
  let ?md = "?new # packet_metadata s"
  note u = update_after_calibrate [OF c, of sq ts now]
  have fresh: "fst (prune now ?md) = Inr () \<and> snd (prune now ?md) \<noteq> [] \<and>
      list_all (\<lambda>e. now - fst e \<le> PACKET_PERIOD) (snd (prune now ?md))"
    if age: "now - ts \<le> PACKET_PERIOD"
      and srt: "sorted_wrt (\<lambda>x y. fst y \<le> fst x) (packet_metadata s)"
  proof -
    from age have r: "fst (prune now ?md) = Inr ()"
      by (intro prune_fresh_head) simp_all
    then obtain md' where p: "prune now ?md = (Inr (), md')"
      by (cases "prune now ?md") auto
    from prune_returns [OF p] obtain dr where
      ne: "md' \<noteq> []" and app: "?md = md' @ dr" and la: "now - fst (last md') \<le> PACKET_PERIOD"
      by blast
    from ne app obtain rest where md': "md' = ?new # rest" and old: "packet_metadata s = rest @ dr"
      by (cases md') auto
    have "list_all (\<lambda>e. now - fst e \<le> PACKET_PERIOD) rest"
    proof (cases "rest = []")
      case True
      then show ?thesis by simp
    next
      case False
      with la md' have "now - fst (last rest) \<le> PACKET_PERIOD" by simp
      with srt old False show ?thesis by (intro sorted_front_ages [of rest dr]) simp_all
    qed
    with age md' p r show ?thesis by simp
  qed
  have stale: "prune now ?md = (Inl IndexError, [])"
    if age: "PACKET_PERIOD < now - ts"
      and older: "list_all (\<lambda>e. fst e \<le> ts) (packet_metadata s)"
  proof -
    from age older have "list_all (\<lambda>e. PACKET_PERIOD < now - fst e) ?md"
      by (fastforce simp: list_all_iff)
    then show ?thesis by (rule prune_all_old)
  qed
  from fresh stale u show ?thesis by auto
qed

text \<open>
  The amended C10 on the tracker whose window holds one entry of time 0: a packet of
  time 1 processed at time 1, and the same packet processed at time 10.
\<close>

theorem update_pruning_witness:
  "fst (calibrate raw_acc raw_gyro raw_mag imu_at_254) = Inr () \<and>
   1 - 1 \<le> PACKET_PERIOD \<and>
   sorted_wrt (\<lambda>x y. fst y \<le> fst x) (packet_metadata imu_at_254) \<and>
   fst (update raw_acc raw_gyro raw_mag 0 1 1 imu_at_254) = Inr () \<and>
   packet_metadata (snd (update raw_acc raw_gyro raw_mag 0 1 1 imu_at_254)) \<noteq> [] \<and>
   list_all (\<lambda>e. 1 - fst e \<le> PACKET_PERIOD)
     (packet_metadata (snd (update raw_acc raw_gyro raw_mag 0 1 1 imu_at_254))) \<and>
   PACKET_PERIOD < 10 - 1 \<and>
   list_all (\<lambda>e. fst e \<le> 1) (packet_metadata imu_at_254) \<and>
   fst (update raw_acc raw_gyro raw_mag 0 1 10 imu_at_254) = Inl IndexError \<and>
   packet_metadata (snd (update raw_acc raw_gyro raw_mag 0 1 10 imu_at_254)) = []"
proof -
  have c: "fst (calibrate raw_acc raw_gyro raw_mag imu_at_254) = Inr ()"
    by (simp add: calibrate_def imu_at_254_eq fresh_imu_eq)
  have h1: "1 - 1 \<le> PACKET_PERIOD \<and>
      sorted_wrt (\<lambda>x y. fst y \<le> fst x) (packet_metadata imu_at_254)"
    by (simp add: imu_at_254_eq PACKET_PERIOD_def)
  have h2: "PACKET_PERIOD < 10 - 1 \<and> list_all (\<lambda>e. fst e \<le> 1) (packet_metadata imu_at_254)"
    by (simp add: imu_at_254_eq PACKET_PERIOD_def)
  from update_pruning [OF c, where now = 1 and ts = 1 and sq = 0]
    update_pruning [OF c, where now = 10 and ts = 1 and sq = 0] c h1 h2
  show ?thesis by blast
qed

section \<open>Sessions\<close>

lemma IMUData_init_None:
  "IMUData_init i None t =
     (Inr (), \<lparr>calibration_data = None, index = i, acc = [PyFloat 0, PyFloat 0, PyFloat 0],
      mag = [PyInt 0, PyInt 0, PyInt 0], gyro = [PyInt 0, PyInt 0, PyInt 0],
      acc_scale = [PyFloat 1, PyFloat 1, PyFloat 1],
      acc_offsets = [PyInt 0, PyInt 0, PyInt 0], gyro_offsets = None,
      mag_scale = None, mag_offsets = None, seq = 0, timestamp = None,
      use_calibration = False, has_acc_calib_u = False, has_acc_calib = None,
      has_mag_calib = False, has_gyro_calib = False, packet_metadata = [],
      packet_start = t, packets_lost = 0\<rparr>)"
  by (simp add: IMUData_init_def reset_def load_calibration_def)

lemma upt_5: "[0..<5] = [0, 1, 2, 3, 4]"
  by code_simp

lemma idle_session_eq:
  "idle_session =
     \<lparr>imus = map (\<lambda>x. snd (IMUData_init (int x) None 0)) [0, 1, 2, 3, 4],
      extana_data = ExtAnaData_init, enabled_imus = [], enabled_sensors = 7, packets = 0,
      uuid_chars = Map.empty, client = Some sk8_device\<rparr>"
  by (simp add: idle_session_def SK8_init_def MAX_IMUS_def SENSOR_ALL_def upt_5)

lemma imu_session_eq:
  "imu_session =
     idle_session\<lparr>enabled_imus := [0, 2], enabled_sensors := 3,
       uuid_chars := [UUID_IMU_SELECTION \<mapsto> 10, UUID_SENSOR_SELECTION \<mapsto> 11, UUID_IMU_CCC \<mapsto> 12],
       client := Some (sk8_device\<lparr>written := [(10, [5]), (11, [3])], notifying := [12]\<rparr>)\<rparr>"
  by (simp add: imu_session_def idle_session_eq enable_imu_streaming_def check_connected_def
      get_characteristic_handle_from_uuid_def get_characteristic_from_uuid_def sk8_device_def
      pack_B_def write_attribute_def start_notify_def)


lemma reset_no_data:
  "calibration_data x = None \<Longrightarrow>
   reset t x =
     (Inr (), x\<lparr>acc := [PyFloat 0, PyFloat 0, PyFloat 0], mag := [PyInt 0, PyInt 0, PyInt 0],
                gyro := [PyInt 0, PyInt 0, PyInt 0],
                acc_scale := [PyFloat 1, PyFloat 1, PyFloat 1],
                acc_offsets := [PyInt 0, PyInt 0, PyInt 0], seq := 0,
                use_calibration := False, has_acc_calib_u := False, has_mag_calib := False,
                has_gyro_calib := False, packet_metadata := [], packet_start := t,
                packets_lost := 0\<rparr>)"
  by (simp add: reset_def load_calibration_def)

lemma reset_all_no_data:
  "list_all (\<lambda>x. calibration_data x = None) xs \<Longrightarrow>
   fst (reset_all now i xs) = Inr () \<and>
   length (snd (reset_all now i xs)) = length xs \<and>
   list_all is_reset (snd (reset_all now i xs)) \<and>
   map gyro_offsets (snd (reset_all now i xs)) = map gyro_offsets xs \<and>
   map mag_scale (snd (reset_all now i xs)) = map mag_scale xs \<and>
   map mag_offsets (snd (reset_all now i xs)) = map mag_offsets xs"
proof (induction xs arbitrary: i)
  case Nil
  then show ?case by simp
next
  case (Cons x xs)
  then have x: "calibration_data x = None" and xs: "list_all (\<lambda>x. calibration_data x = None) xs"
    by simp_all
  obtain r xs' where rec: "reset_all now (Suc i) xs = (r, xs')"
    by (cases "reset_all now (Suc i) xs")
  with Cons.IH [OF xs, of "Suc i"] have
    "r = Inr ()" "length xs' = length xs" "list_all is_reset xs'"
    "map gyro_offsets xs' = map gyro_offsets xs" "map mag_scale xs' = map mag_scale xs"
    "map mag_offsets xs' = map mag_offsets xs"
    by simp_all
  then show ?case
    by (simp add: reset_no_data [OF x] rec) (simp add: is_reset_def)
qed

lemma imus_idle_no_data: "list_all (\<lambda>x. calibration_data x = None) (imus idle_session)"
  by (simp add: idle_session_eq IMUData_init_None)

lemma disable_imu_session:
  "disable_imu_streaming now imu_session =
     (Inr True, imu_session\<lparr>imus := snd (reset_all now 0 (imus imu_session)),
        client := Some (sk8_device\<lparr>written := [(10, [5]), (11, [3])], notifying := []\<rparr>)\<rparr>)"
proof -
  have nd: "list_all (\<lambda>x. calibration_data x = None) (imus idle_session)"
    by (rule imus_idle_no_data)
  have "fst (reset_all now 0 (imus idle_session)) = Inr ()"
    using reset_all_no_data [OF nd] by simp
  then obtain xs where r: "reset_all now 0 (imus idle_session) = (Inr (), xs)"
    by (cases "reset_all now 0 (imus idle_session)") auto
  have i: "imus imu_session = imus idle_session" by (simp add: imu_session_eq)
  show ?thesis
    unfolding i
    by (simp add: r) (simp add: disable_imu_streaming_def imu_session_eq check_connected_def
        get_characteristic_from_uuid_def stop_notify_def r sk8_device_def)
qed

text \<open>
  Claim C6, at a failing input. \<open>disable_imu_streaming\<close> stops the notifications and resets
  the IMUs but does not assign \<open>_enabled_imus\<close>, which \<open>disable_extana_streaming\<close> does
  clear: after \<open>enable_imu_streaming([0, 2], 3)\<close> and a successful
  \<open>disable_imu_streaming()\<close>, \<open>get_enabled_imus()\<close> still returns \<open>[0, 2]\<close>.
\<close>

theorem disable_imu_streaming_keeps_enabled_imus:
  "get_enabled_imus imu_session = [0, 2] \<and>
   fst (disable_imu_streaming (\<lambda>_. 9) imu_session) = Inr True \<and>
   notifying_handles (snd (disable_imu_streaming (\<lambda>_. 9) imu_session)) = [] \<and>
   get_enabled_imus (snd (disable_imu_streaming (\<lambda>_. 9) imu_session)) = [0, 2]"
  by (simp only: disable_imu_session)
     (simp add: imu_session_eq get_enabled_imus_def notifying_handles_def)

text \<open>The steps of the streaming methods on a connected session.\<close>

lemma get_characteristic_available:
  assumes "check_connected s" "available u s"
  shows "\<exists>h s1. get_characteristic_from_uuid u s = (Some h, s1) \<and> client s1 = client s \<and>
           imus s1 = imus s \<and> enabled_imus s1 = enabled_imus s \<and>
           enabled_sensors s1 = enabled_sensors s \<and> (\<forall>v. available v s \<longrightarrow> available v s1)"
  using assms
  by (auto simp: get_characteristic_from_uuid_def check_connected_def available_def
      split: option.splits)

lemma write_attribute_connected:
  assumes "check_connected s"
  shows "check_connected (write_attribute h d s) \<and>
         written_log (write_attribute h d s) = written_log s @ [(h, d)] \<and>
         notifying_handles (write_attribute h d s) = notifying_handles s \<and>
         imus (write_attribute h d s) = imus s \<and>
         enabled_imus (write_attribute h d s) = enabled_imus s \<and>
         enabled_sensors (write_attribute h d s) = enabled_sensors s \<and>
         (\<forall>v. available v s \<longrightarrow> available v (write_attribute h d s))"
  using assms
  by (auto simp: write_attribute_def check_connected_def written_log_def notifying_handles_def
      available_def split: option.splits)

lemma start_notify_connected:
  assumes "check_connected s"
  shows "\<exists>s1. start_notify (Some h) s = (Inr (), s1) \<and> check_connected s1 \<and>
           written_log s1 = written_log s \<and>
           notifying_handles s1 = h # notifying_handles s \<and>
           imus s1 = imus s \<and> enabled_imus s1 = enabled_imus s \<and>
           enabled_sensors s1 = enabled_sensors s \<and> (\<forall>v. available v s \<longrightarrow> available v s1)"
  using assms
  by (auto simp: start_notify_def check_connected_def written_log_def notifying_handles_def
      available_def split: option.splits)

lemma stop_notify_connected:
  assumes "check_connected s"
  shows "\<exists>s1. stop_notify (Some h) s = (Inr (), s1) \<and> check_connected s1 \<and>
           imus s1 = imus s \<and> enabled_imus s1 = enabled_imus s \<and>
           enabled_sensors s1 = enabled_sensors s"
  using assms
  by (auto simp: stop_notify_def check_connected_def split: option.splits)

lemma same_client:
  "client s1 = client s \<Longrightarrow>
   check_connected s1 = check_connected s \<and> written_log s1 = written_log s \<and>
   notifying_handles s1 = notifying_handles s"
  by (simp add: check_connected_def written_log_def notifying_handles_def)


lemma imus_mask_byte:
  "0 \<le> b0 \<Longrightarrow> b0 < 256 \<Longrightarrow> list_all (\<lambda>i. 0 \<le> i \<and> i \<le> 7) en \<Longrightarrow>
   \<exists>m. imus_mask b0 en = Inr m \<and> 0 \<le> m \<and> m \<le> 255"
proof (induction en arbitrary: b0)
  case Nil
  then show ?case by simp
next
  case (Cons i en)
  then have i: "0 \<le> i" "i \<le> 7" and en: "list_all (\<lambda>i. 0 \<le> i \<and> i \<le> 7) en" by simp_all
  from i have "nat i < 8" by simp
  then have "(2::int) ^ nat i < 2 ^ 8" by (intro power_strict_increasing) simp_all
  then have p: "push_bit (nat i) (1::int) < 2 ^ 8" by simp
  from Cons.prems(1,2) p have up: "b0 OR push_bit (nat i) 1 < 2 ^ 8"
    by (intro OR_upper) simp_all
  from Cons.prems(1) have lo: "0 \<le> b0 OR push_bit (nat i) 1" by simp
  from Cons.IH [OF lo _ en] up i show ?case by simp
qed

lemma handle_of_cong:
  "client s1 = client s \<Longrightarrow> uuid_chars s1 = uuid_chars s \<Longrightarrow> handle_of v s1 = handle_of v s"
  by (auto simp: handle_of_def get_characteristic_handle_from_uuid_def
      get_characteristic_from_uuid_def split: option.splits)

lemma get_characteristic_step:
  assumes "check_connected s"
  shows "\<exists>s1. get_characteristic_from_uuid u s = (handle_of u s, s1) \<and> client s1 = client s \<and>
           imus s1 = imus s \<and> enabled_imus s1 = enabled_imus s \<and>
           enabled_sensors s1 = enabled_sensors s \<and> (\<forall>v. handle_of v s1 = handle_of v s)"
  using assms
  by (auto simp: handle_of_def get_characteristic_handle_from_uuid_def
      get_characteristic_from_uuid_def check_connected_def split: option.splits)

lemma write_attribute_handles:
  "handle_of v (write_attribute h d s) = handle_of v s"
  by (auto simp: handle_of_def get_characteristic_handle_from_uuid_def
      get_characteristic_from_uuid_def write_attribute_def split: option.splits)

lemma start_notify_handles:
  "start_notify r s = (x, s1) \<Longrightarrow> handle_of v s1 = handle_of v s"
  by (auto simp: handle_of_def get_characteristic_handle_from_uuid_def
      get_characteristic_from_uuid_def start_notify_def split: option.splits)

lemma imus_mask_bits:
  "imus_mask b en = Inr m \<Longrightarrow> bit m n = (bit b n \<or> int n \<in> set en)"
proof (induction en arbitrary: b)
  case Nil
  then show ?case by simp
next
  case (Cons i en)
  then have i: "0 \<le> i" and r: "imus_mask (b OR push_bit (nat i) 1) en = Inr m"
    by (simp_all split: if_splits)
  from i have "(int n = i) = (n = nat i)" by auto
  with Cons.IH [OF r] show ?case
    by (auto simp: bit_or_iff bit_exp_iff)
qed


lemma enable_imu_streaming_accepts:
  assumes conn: "check_connected s"
    and hs: "handle_of UUID_IMU_SELECTION s = Some ih" "handle_of UUID_SENSOR_SELECTION s = Some sh"
      "handle_of UUID_IMU_CCC s = Some ch"
    and mask: "imus_mask 0 en = Inr m" "0 \<le> m" "m \<le> 255"
    and sn: "0 < sn" "sn \<le> 255"
  shows "\<exists>s'. enable_imu_streaming en sn s = (Inr True, s') \<and> check_connected s' \<and>
           (\<forall>v. handle_of v s' = handle_of v s) \<and>
           enabled_imus s' = en \<and> enabled_sensors s' = sn \<and> imus s' = imus s \<and>
           written_log s' = written_log s @ [(ih, [nat m]), (sh, [nat sn])] \<and>
           notifying_handles s' = ch # notifying_handles s"
proof -
  from get_characteristic_step [OF conn, of UUID_IMU_SELECTION] hs(1) obtain s1 where
    g1: "get_characteristic_from_uuid UUID_IMU_SELECTION s = (Some ih, s1)"
    and c1: "client s1 = client s" and a1: "\<forall>v. handle_of v s1 = handle_of v s"
    and f1: "imus s1 = imus s"
    by auto
  from same_client [OF c1] conn have conn1: "check_connected s1" by simp
  from get_characteristic_step [OF conn1, of UUID_SENSOR_SELECTION] hs(2) a1 obtain s2 where
    g2: "get_characteristic_from_uuid UUID_SENSOR_SELECTION s1 = (Some sh, s2)"
    and c2: "client s2 = client s1" and a2: "\<forall>v. handle_of v s2 = handle_of v s1"
    and f2: "imus s2 = imus s1"
    by auto
  from same_client [OF c2] conn1 have conn2: "check_connected s2" by simp
  define s3 where "s3 = write_attribute ih [nat m] s2"
  note w3 = write_attribute_connected [OF conn2, of ih "[nat m]", folded s3_def]
  have a3: "\<forall>v. handle_of v s3 = handle_of v s2"
    by (simp add: s3_def write_attribute_handles)
  define s4 where "s4 = write_attribute sh [nat sn] s3"
  from w3 have conn3: "check_connected s3" by simp
  note w4 = write_attribute_connected [OF conn3, of sh "[nat sn]", folded s4_def]
  have a4: "\<forall>v. handle_of v s4 = handle_of v s3"
    by (simp add: s4_def write_attribute_handles)
  from w4 have conn4: "check_connected s4" by simp
  from a1 a2 a3 a4 have a04: "\<forall>v. handle_of v s4 = handle_of v s" by simp
  from get_characteristic_step [OF conn4, of UUID_IMU_CCC] hs(3) a04 obtain s5 where
    g5: "get_characteristic_from_uuid UUID_IMU_CCC s4 = (Some ch, s5)"
    and c5: "client s5 = client s4" and a5: "\<forall>v. handle_of v s5 = handle_of v s4"
    and f5: "imus s5 = imus s4"
    by auto
  from same_client [OF c5] conn4 have conn5: "check_connected s5" by simp
  from start_notify_connected [OF conn5, of ch] obtain s6 where
    n6: "start_notify (Some ch) s5 = (Inr (), s6)" and conn6: "check_connected s6"
    and w6: "written_log s6 = written_log s5"
    and nh6: "notifying_handles s6 = ch # notifying_handles s5"
    and f6: "imus s6 = imus s5"
    by blast
  note a6 = start_notify_handles [OF n6]
  let ?s' = "s6\<lparr>enabled_imus := en, enabled_sensors := sn\<rparr>"
  have run: "enable_imu_streaming en sn s = (Inr True, ?s')"
    using conn mask sn g1 g2 g5 n6
    by (simp add: enable_imu_streaming_def get_characteristic_handle_from_uuid_def pack_B_def
        s3_def s4_def)
  have wl: "written_log ?s' = written_log s @ [(ih, [nat m]), (sh, [nat sn])]"
  proof -
    have "written_log ?s' = written_log s6" by (simp add: written_log_def)
    with w6 same_client [OF c5] w4 w3 same_client [OF c2] same_client [OF c1]
    show ?thesis by simp
  qed
  have nh: "notifying_handles ?s' = ch # notifying_handles s"
  proof -
    have "notifying_handles ?s' = notifying_handles s6" by (simp add: notifying_handles_def)
    with nh6 same_client [OF c5] w4 w3 same_client [OF c2] same_client [OF c1]
    show ?thesis by simp
  qed
  have cn: "check_connected ?s'" using conn6 by (simp add: check_connected_def)
  have avs: "\<forall>v. handle_of v ?s' = handle_of v s"
  proof -
    have "\<And>v. handle_of v ?s' = handle_of v s6" by (rule handle_of_cong) simp_all
    with a04 a5 a6 show ?thesis by simp
  qed
  have im: "imus ?s' = imus s" using f1 f2 w3 w4 f5 f6 by simp
  from run wl nh cn avs im show ?thesis by auto
qed

lemma enable_extana_streaming_accepts:
  assumes conn: "check_connected s"
    and hs: "handle_of UUID_IMU_SELECTION s = Some ih" "handle_of UUID_SENSOR_SELECTION s = Some sh"
      "handle_of UUID_IMU_CCC s = Some ch" "handle_of UUID_EXTANA_CCC s = Some eh"
    and fl: "flag_handle s = Some fh"
    and sn: "0 < sn" "sn \<le> 255"
  shows "\<exists>s'. enable_extana_streaming inc sn s = (Inr True, s') \<and>
           check_connected s' \<and> enabled_sensors s' = sn \<and>
           enabled_imus s' = [0] \<and> imus s' = imus s \<and>
           written_log s' =
             written_log s @ [(ih, [1]), (sh, [nat sn]), (fh, [if inc then 1 else 0])] \<and>
           notifying_handles s' = eh # ch # notifying_handles s"
proof -
  have mask: "imus_mask 0 [0] = Inr 1" by simp
  from enable_imu_streaming_accepts [OF conn hs(1-3) mask _ _ sn]
  obtain s1 where
    e1: "enable_imu_streaming [0] sn s = (Inr True, s1)" and conn1: "check_connected s1"
    and a1: "\<forall>v. handle_of v s1 = handle_of v s"
    and en1: "enabled_imus s1 = [0]" and im1: "imus s1 = imus s"
    and w1: "written_log s1 = written_log s @ [(ih, [nat 1]), (sh, [nat sn])]"
    and n1: "notifying_handles s1 = ch # notifying_handles s"
    by auto
  let ?h = "handle_of UUID_EXTANA_IMU_STREAMING s"
  let ?ht = "handle_of UUID_EXTANA_IMU_STREAMING_TMP s"
  from get_characteristic_step [OF conn1, of UUID_EXTANA_IMU_STREAMING] a1 obtain s2 where
    g2: "get_characteristic_from_uuid UUID_EXTANA_IMU_STREAMING s1 = (?h, s2)"
    and c2: "client s2 = client s1" and im2: "imus s2 = imus s1"
    and en2: "enabled_imus s2 = enabled_imus s1"
    and a2: "\<forall>v. handle_of v s2 = handle_of v s1"
    by auto
  from same_client [OF c2] conn1 have conn2: "check_connected s2" by simp
  from get_characteristic_step [OF conn2, of UUID_EXTANA_IMU_STREAMING_TMP] a1 a2 obtain s3 where
    g3: "get_characteristic_from_uuid UUID_EXTANA_IMU_STREAMING_TMP s2 = (?ht, s3)"
    and c3: "client s3 = client s2" and im3: "imus s3 = imus s2"
    and en3: "enabled_imus s3 = enabled_imus s2"
    and a3: "\<forall>v. handle_of v s3 = handle_of v s2"
    by auto
  from same_client [OF c3] conn2 have conn3: "check_connected s3" by simp
  let ?flag = "[if inc then 1 else 0] :: nat list"
  define s4 where "s4 = write_attribute fh ?flag s3"
  note w4 = write_attribute_connected [OF conn3, of fh ?flag, folded s4_def]
  from w4 have conn4: "check_connected s4" by simp
  have a4: "\<forall>v. handle_of v s4 = handle_of v s3"
    by (simp add: s4_def write_attribute_handles)
  from a1 a2 a3 a4 have a04: "\<forall>v. handle_of v s4 = handle_of v s" by simp
  from get_characteristic_step [OF conn4, of UUID_EXTANA_CCC] hs(4) a04 obtain s5 where
    g5: "get_characteristic_from_uuid UUID_EXTANA_CCC s4 = (Some eh, s5)"
    and c5: "client s5 = client s4" and im5: "imus s5 = imus s4"
    and en5: "enabled_imus s5 = enabled_imus s4"
    by auto
  from same_client [OF c5] conn4 have conn5: "check_connected s5" by simp
  from start_notify_connected [OF conn5, of eh] obtain s6 where
    n6: "start_notify (Some eh) s5 = (Inr (), s6)" and conn6: "check_connected s6"
    and w6: "written_log s6 = written_log s5"
    and nh6: "notifying_handles s6 = eh # notifying_handles s5"
    and im6: "imus s6 = imus s5" and en6: "enabled_imus s6 = enabled_imus s5"
    by blast
  let ?s7 = "s6\<lparr>enabled_sensors := sn\<rparr>"
  let ?s' = "if inc then ?s7\<lparr>enabled_imus := [0]\<rparr> else ?s7"
  have run: "enable_extana_streaming inc sn s = (Inr True, ?s')"
  proof (cases ?h)
    case None
    with fl have t: "?ht = Some fh" by (simp add: flag_handle_def)
    from g5 have g5': "get_characteristic_from_uuid UUID_EXTANA_CCC
        (write_attribute fh [if inc then 1 else 0] s3) = (Some eh, s5)"
      by (simp add: s4_def)
    show ?thesis
      using g5' by (cases inc)
        (simp_all add: enable_extana_streaming_def get_characteristic_handle_from_uuid_def
          conn e1 g2 g3 None t n6)
  next
    case (Some hh)
    with fl have hh: "hh = fh" by (simp add: flag_handle_def)
    from g5 have g5': "get_characteristic_from_uuid UUID_EXTANA_CCC
        (write_attribute fh [if inc then 1 else 0] s3) = (Some eh, s5)"
      by (simp add: s4_def)
    show ?thesis
      using g5' by (cases inc)
        (simp_all add: enable_extana_streaming_def get_characteristic_handle_from_uuid_def
          conn e1 g2 g3 Some hh n6)
  qed
  have wl6: "written_log s6 = written_log s @ [(ih, [1]), (sh, [nat sn]), (fh, ?flag)]"
    using w6 same_client [OF c5] w4 same_client [OF c3] same_client [OF c2] w1 by simp
  have nl6: "notifying_handles s6 = eh # ch # notifying_handles s"
    using nh6 same_client [OF c5] w4 same_client [OF c3] same_client [OF c2] n1 by simp
  have en6': "enabled_imus s6 = [0]"
    using en6 en5 w4 en3 en2 en1 by simp
  have im6': "imus s6 = imus s"
    using im6 im5 w4 im3 im2 im1 by simp
  have "check_connected ?s'" "enabled_sensors ?s' = sn" "enabled_imus ?s' = [0]"
    "imus ?s' = imus s"
    "written_log ?s' = written_log s6" "notifying_handles ?s' = notifying_handles s6"
    using conn6 en6' im6'
    by (simp_all add: check_connected_def written_log_def notifying_handles_def)
  with run wl6 nl6 show ?thesis by metis
qed

section \<open>Streaming modes\<close>

lemma imu_session_facts:
  "check_connected imu_session" "available UUID_IMU_SELECTION imu_session"
  "available UUID_SENSOR_SELECTION imu_session" "available UUID_IMU_CCC imu_session"
  "available UUID_EXTANA_CCC imu_session" "available UUID_EXTANA_IMU_STREAMING imu_session"
  "notifying_handles imu_session = [12]"
  "written_log imu_session = [(10, [5]), (11, [3])]"
  "enabled_imus imu_session = [0, 2]" "enabled_sensors imu_session = 3"
  by (simp_all add: imu_session_eq idle_session_eq check_connected_def available_def
      sk8_device_def notifying_handles_def written_log_def)

lemma imu_session_handles:
  "handle_of UUID_IMU_SELECTION imu_session = Some 10"
  "handle_of UUID_SENSOR_SELECTION imu_session = Some 11"
  "handle_of UUID_IMU_CCC imu_session = Some 12"
  "handle_of UUID_EXTANA_CCC imu_session = Some 13"
  "flag_handle imu_session = Some 14"
  by (simp_all add: flag_handle_def handle_of_def get_characteristic_handle_from_uuid_def
      get_characteristic_from_uuid_def imu_session_eq idle_session_eq sk8_device_def)

lemma extana_on_imu_session:
  "enable_extana_streaming False 7 imu_session =
     (Inr True,
      imu_session\<lparr>enabled_imus := [0], enabled_sensors := 7,
        uuid_chars := [UUID_IMU_SELECTION \<mapsto> 10, UUID_SENSOR_SELECTION \<mapsto> 11,
                       UUID_IMU_CCC \<mapsto> 12, UUID_EXTANA_IMU_STREAMING \<mapsto> 14,
                       UUID_EXTANA_CCC \<mapsto> 13],
        client := Some (sk8_device\<lparr>written := [(10, [5]), (11, [3]), (10, [1]), (11, [7]), (14, [0])],
                                      notifying := [13, 12, 12]\<rparr>)\<rparr>)"
  by (simp add: imu_session_eq idle_session_eq enable_extana_streaming_def
      enable_imu_streaming_def check_connected_def
      get_characteristic_handle_from_uuid_def get_characteristic_from_uuid_def sk8_device_def
      pack_B_def write_attribute_def start_notify_def)

lemma extana_session_eq:
  "extana_session =
     idle_session\<lparr>enabled_imus := [0], enabled_sensors := 7,
        uuid_chars := [UUID_IMU_SELECTION \<mapsto> 10, UUID_SENSOR_SELECTION \<mapsto> 11,
                       UUID_IMU_CCC \<mapsto> 12, UUID_EXTANA_IMU_STREAMING \<mapsto> 14,
                       UUID_EXTANA_CCC \<mapsto> 13],
        client := Some (sk8_device\<lparr>written := [(10, [1]), (11, [7]), (14, [0])],
                                      notifying := [13, 12]\<rparr>)\<rparr>"
  by (simp add: extana_session_def idle_session_eq enable_extana_streaming_def
      enable_imu_streaming_def check_connected_def
      get_characteristic_handle_from_uuid_def get_characteristic_from_uuid_def sk8_device_def
      pack_B_def write_attribute_def start_notify_def)

lemma imu_on_extana_session:
  "enable_imu_streaming [1, 3] 3 extana_session =
     (Inr True,
      extana_session\<lparr>enabled_imus := [1, 3], enabled_sensors := 3,
        client := Some (sk8_device\<lparr>written := [(10, [1]), (11, [7]), (14, [0]), (10, [10]), (11, [3])],
                                      notifying := [12, 13, 12]\<rparr>)\<rparr>)"
  by (simp add: extana_session_eq idle_session_eq
      enable_imu_streaming_def check_connected_def
      get_characteristic_handle_from_uuid_def get_characteristic_from_uuid_def sk8_device_def
      pack_B_def write_attribute_def start_notify_def)

text \<open>
  Claim C1, refuted. The session keeps no streaming mode and neither method tests for
  the other one. While IMU streaming is on (notifications on handle 12, IMUs 0 and 2,
  sensors 3), \<open>enable_extana_streaming(False, 7)\<close> returns True, writes the IMU and sensor
  selection registers (handles 10 and 11) and the ExtAna flag, and leaves
  \<open>enabled_imus = [0]\<close> and \<open>enabled_sensors = 7\<close>. While ExtAna streaming is on,
  \<open>enable_imu_streaming([1, 3], 3)\<close> likewise returns True, writes both selection
  registers and records the new selection.
\<close>

theorem enable_while_other_mode_active:
  "notifying_handles imu_session = [12] \<and>
   get_enabled_imus imu_session = [0, 2] \<and> get_enabled_sensors imu_session = 3 \<and>
   fst (enable_extana_streaming False 7 imu_session) = Inr True \<and>
   get_enabled_imus (snd (enable_extana_streaming False 7 imu_session)) = [0] \<and>
   get_enabled_sensors (snd (enable_extana_streaming False 7 imu_session)) = 7 \<and>
   written_log (snd (enable_extana_streaming False 7 imu_session)) =
     written_log imu_session @ [(10, [1]), (11, [7]), (14, [0])] \<and>
   notifying_handles extana_session = [13, 12] \<and>
   get_enabled_imus extana_session = [0] \<and> get_enabled_sensors extana_session = 7 \<and>
   fst (enable_imu_streaming [1, 3] 3 extana_session) = Inr True \<and>
   get_enabled_imus (snd (enable_imu_streaming [1, 3] 3 extana_session)) = [1, 3] \<and>
   get_enabled_sensors (snd (enable_imu_streaming [1, 3] 3 extana_session)) = 3 \<and>
   written_log (snd (enable_imu_streaming [1, 3] 3 extana_session)) =
     written_log extana_session @ [(10, [10]), (11, [3])]"
  apply (simp only: extana_on_imu_session imu_on_extana_session)
  apply (simp add: imu_session_eq extana_session_eq idle_session_eq get_enabled_imus_def
      get_enabled_sensors_def written_log_def notifying_handles_def sk8_device_def)
  done

text \<open>
  Claim C1, amended. Take a connected session that resolves the IMU selection, sensor
  selection and IMU notification characteristics, and a sensor mask in 1..255; nothing
  is asked of the notifications already on. \<open>enable_extana_streaming\<close> (the session also
  resolving the ExtAna notification characteristic and a flag characteristic) returns
  True; it writes \<open>1\<close> to the IMU selection characteristic, the mask to the sensor
  selection characteristic and the \<open>include_imu\<close> flag to the flag characteristic, in
  that order; it turns on the IMU and the ExtAna notifications on top of those already
  on; and it records the mask as \<open>enabled_sensors\<close>, and \<open>[0]\<close> as \<open>enabled_imus\<close> when
  \<open>include_imu\<close> is set. \<open>enable_imu_streaming\<close> with indices in 0..7 returns True; it
  writes the byte whose bit \<open>i\<close> is set exactly for the IMUs \<open>i\<close> given to the IMU selection
  characteristic and the mask to the sensor selection characteristic; it turns on the
  IMU notification on top of those already on; and it records the given IMUs and mask.
  Neither call is rejected because the other mode is active.
\<close>

theorem streaming_modes_not_exclusive:
  assumes "check_connected s"
    and "handle_of UUID_IMU_SELECTION s = Some ih"
    and "handle_of UUID_SENSOR_SELECTION s = Some sh"
    and "handle_of UUID_IMU_CCC s = Some ch"
    and "0 < sn" "sn \<le> 255"
  shows "(handle_of UUID_EXTANA_CCC s = Some eh \<and> flag_handle s = Some fh \<longrightarrow>
            (\<exists>s'. enable_extana_streaming inc sn s = (Inr True, s') \<and>
                  enabled_sensors s' = sn \<and> (inc \<longrightarrow> enabled_imus s' = [0]) \<and>
                  written_log s' =
                    written_log s @ [(ih, [1]), (sh, [nat sn]), (fh, [if inc then 1 else 0])] \<and>
                  notifying_handles s' = eh # ch # notifying_handles s)) \<and>
         (list_all (\<lambda>i. 0 \<le> i \<and> i \<le> 7) en \<longrightarrow>
            (\<exists>s' m. enable_imu_streaming en sn s = (Inr True, s') \<and>
                  enabled_imus s' = en \<and> enabled_sensors s' = sn \<and>
                  (\<forall>n. bit m n = (int n \<in> set en)) \<and>
                  written_log s' = written_log s @ [(ih, [m]), (sh, [nat sn])] \<and>
                  notifying_handles s' = ch # notifying_handles s))"
proof (intro conjI impI)
  assume "handle_of UUID_EXTANA_CCC s = Some eh \<and> flag_handle s = Some fh"
  then have e: "handle_of UUID_EXTANA_CCC s = Some eh" and f: "flag_handle s = Some fh"
    by simp_all
  from enable_extana_streaming_accepts [OF assms(1-4) e f assms(5,6), of inc]
  show "\<exists>s'. enable_extana_streaming inc sn s = (Inr True, s') \<and>
      enabled_sensors s' = sn \<and> (inc \<longrightarrow> enabled_imus s' = [0]) \<and>
      written_log s' =
        written_log s @ [(ih, [1]), (sh, [nat sn]), (fh, [if inc then 1 else 0])] \<and>
      notifying_handles s' = eh # ch # notifying_handles s"
    by blast
next
  assume en: "list_all (\<lambda>i. 0 \<le> i \<and> i \<le> 7) en"
  from imus_mask_byte [OF _ _ en, of 0] obtain mk where
    mk: "imus_mask 0 en = Inr mk" "0 \<le> mk" "mk \<le> 255"
    by auto
  from imus_mask_bits [OF mk(1)] mk(2) have bits: "\<forall>n. bit (nat mk) n = (int n \<in> set en)"
    by (simp add: bit_nat_iff)
  from enable_imu_streaming_accepts [OF assms(1-4) mk assms(5,6)] bits
  show "\<exists>s' m. enable_imu_streaming en sn s = (Inr True, s') \<and>
      enabled_imus s' = en \<and> enabled_sensors s' = sn \<and>
      (\<forall>n. bit m n = (int n \<in> set en)) \<and>
      written_log s' = written_log s @ [(ih, [m]), (sh, [nat sn])] \<and>
      notifying_handles s' = ch # notifying_handles s"
    by blast
qed

text \<open>
  The amended C1 on the session in which IMU streaming is on (notifications on handle
  12): both calls are accepted, with the writes on handles 10, 11 and 14.
\<close>

theorem streaming_modes_not_exclusive_witness:
  "check_connected imu_session \<and>
   handle_of UUID_IMU_SELECTION imu_session = Some 10 \<and>
   handle_of UUID_SENSOR_SELECTION imu_session = Some 11 \<and>
   handle_of UUID_IMU_CCC imu_session = Some 12 \<and>
   (0::int) < 7 \<and> (7::int) \<le> 255 \<and>
   handle_of UUID_EXTANA_CCC imu_session = Some 13 \<and> flag_handle imu_session = Some 14 \<and>
   notifying_handles imu_session = [12] \<and>
   (\<exists>s'. enable_extana_streaming True 7 imu_session = (Inr True, s') \<and>
         enabled_sensors s' = 7 \<and> enabled_imus s' = [0] \<and>
         written_log s' = written_log imu_session @ [(10, [1]), (11, [nat 7]), (14, [1])] \<and>
         notifying_handles s' = 13 # 12 # notifying_handles imu_session) \<and>
   list_all (\<lambda>i. 0 \<le> i \<and> i \<le> 7) [1 :: int] \<and>
   (\<exists>s' m. enable_imu_streaming [1] 7 imu_session = (Inr True, s') \<and>
         enabled_imus s' = [1] \<and> enabled_sensors s' = 7 \<and>
         (\<forall>n. bit m n = (int n \<in> set [1])) \<and>
         written_log s' = written_log imu_session @ [(10, [m]), (11, [nat 7])] \<and>
         notifying_handles s' = 12 # notifying_handles imu_session)"
proof -
  have sn: "(0::int) < 7" "(7::int) \<le> 255" by simp_all
  have en: "list_all (\<lambda>i. 0 \<le> i \<and> i \<le> 7) [1 :: int]" by simp
  from streaming_modes_not_exclusive
      [OF imu_session_facts(1) imu_session_handles(1-3) sn, of 13 14 True "[1]"]
    imu_session_facts imu_session_handles sn en
  show ?thesis by simp
qed

section \<open>Disabling a streaming mode\<close>

lemma disable_imu_streaming_runs:
  assumes conn: "check_connected s" and av: "available UUID_IMU_CCC s"
    and nd: "list_all (\<lambda>x. calibration_data x = None) (imus s)"
  shows "fst (disable_imu_streaming now s) = Inr True \<and>
         imus (snd (disable_imu_streaming now s)) = snd (reset_all now 0 (imus s))"
proof -
  from get_characteristic_available [OF conn av] obtain h s1 where
    g: "get_characteristic_from_uuid UUID_IMU_CCC s = (Some h, s1)"
    and c1: "client s1 = client s" and i1: "imus s1 = imus s"
    by blast
  from same_client [OF c1] conn have conn1: "check_connected s1" by simp
  from stop_notify_connected [OF conn1, of h] obtain s2 where
    st: "stop_notify (Some h) s1 = (Inr (), s2)" and i2: "imus s2 = imus s1"
    by blast
  from reset_all_no_data [OF nd, of now 0] obtain xs where
    r: "reset_all now 0 (imus s) = (Inr (), xs)"
    by (cases "reset_all now 0 (imus s)") auto
  show ?thesis
    using conn g st r i1 i2 by (simp add: disable_imu_streaming_def)
qed

lemma disable_extana_streaming_runs:
  assumes conn: "check_connected s" and av: "available UUID_EXTANA_CCC s"
    and nd: "list_all (\<lambda>x. calibration_data x = None) (imus s)"
  shows "fst (disable_extana_streaming now s) = Inr True \<and>
         imus (snd (disable_extana_streaming now s)) = snd (reset_all now 0 (imus s))"
proof -
  from get_characteristic_available [OF conn av] obtain h s1 where
    g: "get_characteristic_from_uuid UUID_EXTANA_CCC s = (Some h, s1)"
    and c1: "client s1 = client s" and i1: "imus s1 = imus s"
    by blast
  from same_client [OF c1] conn have conn1: "check_connected s1" by simp
  from stop_notify_connected [OF conn1, of h] obtain s2 where
    st: "stop_notify (Some h) s1 = (Inr (), s2)" and i2: "imus s2 = imus s1"
    by blast
  from reset_all_no_data [OF nd, of now 0] obtain xs where
    r: "reset_all now 0 (imus s) = (Inr (), xs)"
    by (cases "reset_all now 0 (imus s)") auto
  show ?thesis
    using conn g st r i1 i2 by (simp add: disable_extana_streaming_def)
qed

lemma calibrated_session_facts:
  "check_connected calibrated_session" "available UUID_IMU_CCC calibrated_session"
  "available UUID_EXTANA_CCC calibrated_session"
  "list_all (\<lambda>x. calibration_data x = None) (imus calibrated_session)"
  "SK8_get_calibration calibrated_session = [True, True, True, True, True]"
  "length (imus calibrated_session) = 5"
  by (simp_all add: calibrated_session_def SK8_set_calibration_def MAX_IMUS_def upt_5
      imu_session_eq idle_session_eq IMUData_init_None check_connected_def available_def
      sk8_device_def set_calibration_def SK8_get_calibration_def get_calibration_def)


lemma five_reset_flags:
  "length xs = 5 \<Longrightarrow> list_all is_reset xs \<Longrightarrow>
   map get_calibration xs = [False, False, False, False, False]"
  by (auto simp: eval_nat_numeral length_Suc_conv is_reset_def get_calibration_def)

lemma loaded_imu_eq:
  "loaded_imu =
     fresh_imu\<lparr>acc_scale := [PyFloat (1 / 4), PyFloat (1 / 4), PyFloat (1 / 4)],
       acc_offsets := [PyFloat 0, PyFloat 0, PyFloat 0],
       gyro_offsets := Some [PyInt 0, PyInt 0, PyInt 0],
       mag_scale := Some [PyInt 0, PyInt 0, PyInt 0],
       mag_offsets := Some [PyFloat 1, PyFloat 1, PyFloat 1],
       use_calibration := True, has_acc_calib := Some True\<rparr>"
  by (simp add: loaded_imu_def fresh_imu_eq load_calibration_def
      load_acc_def load_gyro_def load_mag_def coefficients_def axes_def acc_only_def
      to_double_values)

text \<open>
  Claim C5, refuted. \<open>reset\<close> assigns \<open>_use_calibration = False\<close> and identity
  accelerometer coefficients and then reloads the mapping given to the constructor,
  which is \<open>None\<close> for the IMUs of a session. After the user has enabled calibration on
  all five IMUs, a successful \<open>disable_imu_streaming()\<close> leaves calibration disabled on
  all of them; and resetting an IMU whose accelerometer scale was loaded as 0.25 leaves
  the scale 1 and calibration off.
\<close>

theorem disable_streaming_drops_calibration:
  "SK8_get_calibration calibrated_session = [True, True, True, True, True] \<and>
   fst (disable_imu_streaming (\<lambda>_. 9) calibrated_session) = Inr True \<and>
   SK8_get_calibration (snd (disable_imu_streaming (\<lambda>_. 9) calibrated_session)) =
     [False, False, False, False, False] \<and>
   use_calibration loaded_imu \<and>
   acc_scale loaded_imu = [PyFloat (1 / 4), PyFloat (1 / 4), PyFloat (1 / 4)] \<and>
   fst (reset 9 loaded_imu) = Inr () \<and>
   \<not> use_calibration (snd (reset 9 loaded_imu)) \<and>
   acc_scale (snd (reset 9 loaded_imu)) = [PyFloat 1, PyFloat 1, PyFloat 1]"
proof -
  note f = calibrated_session_facts
  from disable_imu_streaming_runs [OF f(1,2,4), of "\<lambda>_. 9"]
    reset_all_no_data [OF f(4), of "\<lambda>_. 9" 0] f(6)
  have "fst (disable_imu_streaming (\<lambda>_. 9) calibrated_session) = Inr True"
    "length (imus (snd (disable_imu_streaming (\<lambda>_. 9) calibrated_session))) = 5"
    "list_all is_reset (imus (snd (disable_imu_streaming (\<lambda>_. 9) calibrated_session)))"
    by simp_all
  with five_reset_flags
  have sk8: "fst (disable_imu_streaming (\<lambda>_. 9) calibrated_session) = Inr True \<and>
      SK8_get_calibration (snd (disable_imu_streaming (\<lambda>_. 9) calibrated_session)) =
        [False, False, False, False, False]"
    by (simp add: SK8_get_calibration_def)
  have nd: "calibration_data loaded_imu = None"
    by (simp add: loaded_imu_eq fresh_imu_eq)
  have imu: "use_calibration loaded_imu \<and>
      acc_scale loaded_imu = [PyFloat (1 / 4), PyFloat (1 / 4), PyFloat (1 / 4)] \<and>
      fst (reset 9 loaded_imu) = Inr () \<and>
      \<not> use_calibration (snd (reset 9 loaded_imu)) \<and>
      acc_scale (snd (reset 9 loaded_imu)) = [PyFloat 1, PyFloat 1, PyFloat 1]"
    by (simp add: reset_no_data [OF nd]) (simp add: loaded_imu_eq)
  from f(5) sk8 imu show ?thesis by simp
qed

text \<open>
  Claim C5, amended. On a connected session whose IMUs were constructed without
  calibration data (as \<open>SK8.__init__\<close> constructs them), disabling IMU streaming, or
  ExtAna streaming, with the notification characteristic available, returns True and
  leaves every IMU with an empty window, sequence number 0 and cumulative loss 0. Of the
  calibration settings it leaves the gyroscope offsets and the magnetometer scale and
  offsets of every IMU as they were, and sets the calibration flag off and the
  accelerometer scale and offsets back to identity.
\<close>

theorem disable_streaming_resets_calibration:
  assumes "check_connected s"
    and "list_all (\<lambda>x. calibration_data x = None) (imus s)"
  shows "(available UUID_IMU_CCC s \<longrightarrow>
            fst (disable_imu_streaming now s) = Inr True \<and>
            length (imus (snd (disable_imu_streaming now s))) = length (imus s) \<and>
            list_all is_reset (imus (snd (disable_imu_streaming now s))) \<and>
            map gyro_offsets (imus (snd (disable_imu_streaming now s))) = map gyro_offsets (imus s) \<and>
            map mag_scale (imus (snd (disable_imu_streaming now s))) = map mag_scale (imus s) \<and>
            map mag_offsets (imus (snd (disable_imu_streaming now s))) = map mag_offsets (imus s)) \<and>
         (available UUID_EXTANA_CCC s \<longrightarrow>
            fst (disable_extana_streaming now s) = Inr True \<and>
            length (imus (snd (disable_extana_streaming now s))) = length (imus s) \<and>
            list_all is_reset (imus (snd (disable_extana_streaming now s))) \<and>
            map gyro_offsets (imus (snd (disable_extana_streaming now s))) = map gyro_offsets (imus s) \<and>
            map mag_scale (imus (snd (disable_extana_streaming now s))) = map mag_scale (imus s) \<and>
            map mag_offsets (imus (snd (disable_extana_streaming now s))) = map mag_offsets (imus s))"
  using disable_imu_streaming_runs [OF assms(1) _ assms(2), of now]
    disable_extana_streaming_runs [OF assms(1) _ assms(2), of now]
    reset_all_no_data [OF assms(2), of now 0]
  by simp

text \<open>The amended C5 on the session in which the user enabled calibration.\<close>

theorem disable_streaming_resets_calibration_witness:
  "check_connected calibrated_session \<and>
   list_all (\<lambda>x. calibration_data x = None) (imus calibrated_session) \<and>
   available UUID_IMU_CCC calibrated_session \<and>
   fst (disable_imu_streaming (\<lambda>_. 9) calibrated_session) = Inr True \<and>
   length (imus (snd (disable_imu_streaming (\<lambda>_. 9) calibrated_session))) = length (imus calibrated_session) \<and>
   list_all is_reset (imus (snd (disable_imu_streaming (\<lambda>_. 9) calibrated_session))) \<and>
   map gyro_offsets (imus (snd (disable_imu_streaming (\<lambda>_. 9) calibrated_session))) = map gyro_offsets (imus calibrated_session) \<and>
   map mag_scale (imus (snd (disable_imu_streaming (\<lambda>_. 9) calibrated_session))) = map mag_scale (imus calibrated_session) \<and>
   map mag_offsets (imus (snd (disable_imu_streaming (\<lambda>_. 9) calibrated_session))) = map mag_offsets (imus calibrated_session)  \<and>
   available UUID_EXTANA_CCC calibrated_session \<and>
   fst (disable_extana_streaming (\<lambda>_. 9) calibrated_session) = Inr True \<and>
   length (imus (snd (disable_extana_streaming (\<lambda>_. 9) calibrated_session))) = length (imus calibrated_session) \<and>
   list_all is_reset (imus (snd (disable_extana_streaming (\<lambda>_. 9) calibrated_session))) \<and>
   map gyro_offsets (imus (snd (disable_extana_streaming (\<lambda>_. 9) calibrated_session))) = map gyro_offsets (imus calibrated_session) \<and>
   map mag_scale (imus (snd (disable_extana_streaming (\<lambda>_. 9) calibrated_session))) = map mag_scale (imus calibrated_session) \<and>
   map mag_offsets (imus (snd (disable_extana_streaming (\<lambda>_. 9) calibrated_session))) = map mag_offsets (imus calibrated_session) "
  using disable_streaming_resets_calibration [OF calibrated_session_facts(1,4), of "\<lambda>_. 9"]
    calibrated_session_facts(1-4)
  by simp

end
